theory Spec2Isabelle
  imports Main "HOL-Library.AList"
begin

section \<open>Strings and paths\<close>

text \<open>
  A Python \<open>str\<close> is modelled as a \<open>string\<close>: one list element per character of the
  \<open>str\<close>. Only equality of characters and the separator \<open>/\<close> are used below.

  \<open>split_py sep s\<close> is \<open>s.split(sep)\<close> for a one-character separator: the pieces between
  the occurrences of \<open>sep\<close>, empty pieces included, so the result has one element more
  than \<open>s\<close> has separators and is never empty.
\<close>

function split_py :: "char \<Rightarrow> string \<Rightarrow> string list" where
  "split_py sep s =
     (case dropWhile (\<lambda>c. c \<noteq> sep) s of
        [] \<Rightarrow> [takeWhile (\<lambda>c. c \<noteq> sep) s]
      | _ # rest \<Rightarrow> takeWhile (\<lambda>c. c \<noteq> sep) s # split_py sep rest)"
  by pat_completeness auto
termination
proof (relation "measure (\<lambda>(sep, s). length s)")
  show "wf (measure (\<lambda>(sep, s). length s))" by simp
next
  fix sep :: char and s :: string and x rest
  assume "dropWhile (\<lambda>c. c \<noteq> sep) s = x # rest"
  then have "length rest < length (dropWhile (\<lambda>c. c \<noteq> sep) s)" by simp
  also have "\<dots> \<le> length s" by (rule length_dropWhile_le)
  finally show "((sep, rest), (sep, s)) \<in> measure (\<lambda>(sep, s). length s)" by simp
qed

declare split_py.simps [simp del]

text \<open>
  \<open>path.split('/')[-1]\<close>: the last piece. The index \<open>-1\<close> never raises, because
  \<open>split\<close> returns at least one piece (lemma \<open>split_py_not_Nil\<close> below).
\<close>

definition last_segment :: "string \<Rightarrow> string" where
  "last_segment path = last (split_py CHR ''/'' path)"

subsection \<open>The locate helper of the model and template views\<close>

text \<open>
  \<open>find_name\<close> is defined twice in the source, inside \<open>exercise_model\<close> and inside
  \<open>exercise_template\<close>; the two bodies differ only in the name of a local list.
  It is a closure: \<open>parameter\<close> is the enclosing view's argument, \<open>paths\<close> and \<open>name\<close>
  are its own arguments. The loop \<open>for path, name in models\<close> rebinds \<open>name\<close> to the
  second component of each pair, so the argument \<open>name\<close> is never read.
\<close>

fun find_name_loop :: "string \<Rightarrow> (string \<times> string) list \<Rightarrow> string option" where
  "find_name_loop parameter [] = None"
| "find_name_loop parameter ((path, name) # models) =
     (if name = parameter then Some path else find_name_loop parameter models)"

definition find_name :: "string \<Rightarrow> string list \<Rightarrow> string \<Rightarrow> string option" where
  "find_name parameter paths name =
     (let models = map (\<lambda>path. (path, last_segment path)) paths
      in find_name_loop parameter models)"

section \<open>Python values, dictionaries and pydantic models\<close>

text \<open>
  The values that reach the JSON encoder. A \<open>dict\<close> keeps its keys in insertion order,
  so it is an association list; \<open>d[k] = v\<close> replaces the value of an existing key in
  place and appends a new key at the end, which is \<open>AList.update\<close>.
\<close>

datatype pyval =
    PNone
  | PBool bool
  | PInt int
  | PStr string
  | PList "pyval list"
  | PDict "(string \<times> pyval) list"

type_synonym pydict = "(string \<times> pyval) list"

definition setitem :: "string \<Rightarrow> pyval \<Rightarrow> pydict \<Rightarrow> pydict" where
  "setitem k v d = AList.update k v d"

text \<open>The truth value of an object, as \<open>if x:\<close> tests it.\<close>

fun truthy :: "pyval \<Rightarrow> bool" where
  "truthy PNone = False"
| "truthy (PBool b) = b"
| "truthy (PInt i) = (i \<noteq> 0)"
| "truthy (PStr s) = (s \<noteq> [])"
| "truthy (PList xs) = (xs \<noteq> [])"
| "truthy (PDict kvs) = (kvs \<noteq> [])"

text \<open>
  The node classes of \<open>access.course\<close> are not part of the sources at hand; the export
  tests \<open>isinstance(o, Exercise)\<close> and \<open>isinstance(o, Chapter)\<close> and reads \<open>o.children\<close>,
  \<open>o.key\<close>, \<open>o.config\<close> and \<open>o.dict(...)\<close>. A node is therefore its class, its pydantic
  fields other than \<open>children\<close> (name and value, in declaration order), and its children.
\<close>

datatype cls = Module | Chapter | Exercise | GenericItem

datatype node = Node (cls: cls) (node_fields: pydict) (children: "node list")

text \<open>Attribute access \<open>o.a\<close> on a model; an optional field that was not given is \<open>None\<close>.\<close>

definition attr :: "pydict \<Rightarrow> string \<Rightarrow> pyval" where
  "attr fs a = (case map_of fs a of Some v \<Rightarrow> v | None \<Rightarrow> PNone)"

text \<open>
  \<open>model.dict(exclude=names, exclude_none=True)\<close>: the fields whose name is not excluded
  and whose value is not \<open>None\<close>, in declaration order, as a new dictionary.
\<close>

definition model_dict :: "string set \<Rightarrow> pydict \<Rightarrow> pydict" where
  "model_dict exclude fs = filter (\<lambda>(k, v). k \<notin> exclude \<and> v \<noteq> PNone) fs"

section \<open>Requests, course configurations and the collaborators of the views\<close>

record request =
  GET :: "(string \<times> string) list"
  is_ajax :: bool
  host :: string

text \<open>
  \<open>config.data\<close> is the pydantic model of the course: its fields other than \<open>modules\<close>,
  and the modules. \<open>CourseConfig\<close> (\<open>access.config\<close>) is not part of the sources at hand;
  the views use its attributes \<open>key\<close>, \<open>lang\<close> and \<open>data\<close> and its methods
  \<open>exercise_config(key)\<close>, \<open>exercise_data(key, lang=...)\<close> and \<open>get_exercise_list()\<close>, which
  are components of the record.
\<close>

record course_data =
  course_fields :: pydict
  modules :: "node list"

record course_config =
  key :: string
  lang :: string
  data :: course_data
  exercise_config :: "pyval \<Rightarrow> pyval"
  exercise_data :: "string \<Rightarrow> string option \<Rightarrow> pydict option"
  get_exercise_list :: "pydict list"

text \<open>
  The functions of \<open>util.export\<close> and of Django that the export calls. They are taken as
  functions of their arguments that return a dictionary (a string for the two URL
  functions).
\<close>

record externals =
  export_exercise :: "request \<Rightarrow> course_config \<Rightarrow> pyval \<Rightarrow> pydict \<Rightarrow> pydict"
  export_chapter :: "request \<Rightarrow> course_config \<Rightarrow> pydict \<Rightarrow> pydict"
  reverse :: "string \<Rightarrow> string list \<Rightarrow> string"
  build_absolute_uri :: "request \<Rightarrow> string \<Rightarrow> string"

text \<open>
  What a view can read and change outside its arguments: the cache of course
  configurations behind \<open>CourseConfig.all()\<close> and \<open>CourseConfig.get(key)\<close>, the path join
  \<open>CourseConfig.path_to\<close>, the files (what \<open>open(path).read()\<close> gives), the language
  activated by \<open>translation.activate\<close>, and the paths handed to \<open>open\<close> so far.
\<close>

datatype file_result = Content string | FileNotFoundError | OtherOSError

record world =
  all_configs :: "course_config list"
  get_config :: "string \<Rightarrow> course_config option"
  path_to :: "string \<Rightarrow> string \<Rightarrow> string"
  read_file :: "string \<Rightarrow> file_result"
  active_lang :: "string option"
  opened :: "string list"

datatype exn =
    Http404 "string option"
  | KeyError string
  | TypeError
  | AttributeError
  | OSError

datatype ctxval =
    CConfigs "course_config list"
  | CData course_data
  | CDicts "pydict list"
  | CStr string

datatype response =
    HttpResponse string string
  | JsonResponse pydict
  | Render string "(string \<times> ctxval) list"

type_synonym outcome = "exn + response"

text \<open>The status code that the client sees.\<close>

fun status_code :: "outcome \<Rightarrow> nat" where
  "status_code (Inr r) = 200"
| "status_code (Inl (Http404 msg)) = 404"
| "status_code (Inl e) = 500"

section \<open>The views\<close>

subsection \<open>Course and exercise lookup with the language\<close>

text \<open>
  \<open>_get_course_exercise_lang\<close>. \<open>if lang_code:\<close> holds for a string that is present and
  not empty. The language is activated right before the return, so a request that ends
  in \<open>Http404\<close> activates nothing.
\<close>

definition get_course_exercise_lang ::
  "world \<Rightarrow> string \<Rightarrow> string \<Rightarrow> string option
     \<Rightarrow> (exn + course_config \<times> pydict \<times> string) \<times> world" where
  "get_course_exercise_lang w course_key exercise_key lang_code0 =
     (let lang_code = (case lang_code0 of
                         Some s \<Rightarrow> if s \<noteq> [] then Some (take 2 s) else Some s
                       | None \<Rightarrow> None)
      in case get_config w course_key of
           None \<Rightarrow> (Inl (Http404 None), w)
         | Some config \<Rightarrow>
             (case exercise_data config exercise_key lang_code of
                None \<Rightarrow> (Inl (Http404 None), w)
              | Some exercise \<Rightarrow>
                  (let lang_code' = (case lang_code of
                                       Some s \<Rightarrow> if s \<noteq> [] then s else lang config
                                     | None \<Rightarrow> lang config)
                   in (Inr (config, exercise, lang_code'),
                       w\<lparr>active_lang := Some lang_code'\<rparr>))))"

subsection \<open>Model and template files\<close>

text \<open>
  The elements that \<open>for path in paths\<close> yields, each of which must have \<open>split\<close>: a list of
  strings gives its elements, a string its characters, a dictionary its keys; \<open>None\<close>, a
  number or a truth value cannot be iterated, and an element that is not a string has no
  \<open>split\<close>. The list comprehension is evaluated in full before the search starts.
\<close>

fun the_str :: "pyval \<Rightarrow> exn + string" where
  "the_str (PStr s) = Inr s"
| "the_str v = Inl AttributeError"

fun all_strs :: "pyval list \<Rightarrow> exn + string list" where
  "all_strs [] = Inr []"
| "all_strs (v # vs) =
     (case the_str v of
        Inl e \<Rightarrow> Inl e
      | Inr s \<Rightarrow> (case all_strs vs of Inl e \<Rightarrow> Inl e | Inr ss \<Rightarrow> Inr (s # ss)))"

fun iter_paths :: "pyval \<Rightarrow> exn + string list" where
  "iter_paths (PList vs) = all_strs vs"
| "iter_paths (PStr s) = Inr (map (\<lambda>c. [c]) s)"
| "iter_paths (PDict kvs) = Inr (map fst kvs)"
| "iter_paths v = Inl TypeError"

text \<open>
  The common body of \<open>exercise_model\<close> and \<open>exercise_template\<close>, which differ in the key of
  the file list and in the message of the \<open>Http404\<close> for a file that is not on disk.
  \<open>if path:\<close> holds for a path that was found and is not the empty string.
\<close>

definition serve_file ::
  "string \<Rightarrow> string \<Rightarrow> world \<Rightarrow> request \<Rightarrow> string \<Rightarrow> string \<Rightarrow> string \<Rightarrow> outcome \<times> world" where
  "serve_file files_key missing w request course_key exercise_key parameter =
     (let lang = map_of (GET request) ''lang''
      in case get_course_exercise_lang w course_key exercise_key lang of
           (Inl e, w1) \<Rightarrow> (Inl e, w1)
         | (Inr (course, exercise, lang'), w1) \<Rightarrow>
             (case (case map_of exercise files_key of
                      None \<Rightarrow> Inr None
                    | Some v \<Rightarrow>
                        (case iter_paths v of
                           Inl e \<Rightarrow> Inl e
                         | Inr paths \<Rightarrow> Inr (find_name parameter paths parameter))) of
                Inl e \<Rightarrow> (Inl e, w1)
              | Inr path \<Rightarrow>
                  (case path of
                     None \<Rightarrow> (Inl (Http404 None), w1)
                   | Some p \<Rightarrow>
                       if p \<noteq> [] then
                         (let f = path_to w1 (key course) p;
                              w2 = w1\<lparr>opened := opened w1 @ [f]\<rparr>
                          in case read_file w2 f of
                               Content content \<Rightarrow> (Inr (HttpResponse content ''text/plain''), w2)
                             | FileNotFoundError \<Rightarrow> (Inl (Http404 (Some missing)), w2)
                             | OtherOSError \<Rightarrow> (Inl OSError, w2))
                       else (Inl (Http404 None), w1))))"

definition exercise_model ::
  "world \<Rightarrow> request \<Rightarrow> string \<Rightarrow> string \<Rightarrow> string \<Rightarrow> outcome \<times> world" where
  "exercise_model = serve_file ''model_files'' ''Model file missing''"

definition exercise_template ::
  "world \<Rightarrow> request \<Rightarrow> string \<Rightarrow> string \<Rightarrow> string \<Rightarrow> outcome \<times> world" where
  "exercise_template = serve_file ''template_files'' ''Template file missing''"

subsection \<open>The configuration export\<close>

text \<open>
  The body of the loop of \<open>children_recursion\<close> up to the recursive call: the node's own
  fields, then the transform chosen by the node's class. \<open>o.config\<close> is tested for its
  truth value; the record handed to \<open>export.exercise\<close> is \<open>config.exercise_config(o.key)\<close>.
\<close>

definition node_data :: "externals \<Rightarrow> request \<Rightarrow> course_config \<Rightarrow> node \<Rightarrow> pydict" where
  "node_data X request config obj =
     (let ofd = model_dict {''children''} (node_fields obj)
      in if cls obj = Exercise \<and> truthy (attr (node_fields obj) ''config'') then
           (let exercise = exercise_config config (attr (node_fields obj) ''key'')
            in export_exercise X request config exercise ofd)
         else if cls obj = Chapter then export_chapter X request config ofd
         else ofd)"

text \<open>
  \<open>children_recursion\<close> with its loop: \<open>result\<close> starts empty, every child appends one
  dictionary whose \<open>children\<close> entry is the export of the child's own children.
\<close>

fun children_recursion :: "externals \<Rightarrow> request \<Rightarrow> course_config \<Rightarrow> node \<Rightarrow> pydict list"
  and children_loop ::
    "externals \<Rightarrow> request \<Rightarrow> course_config \<Rightarrow> node list \<Rightarrow> pydict list \<Rightarrow> pydict list" where
  "children_recursion X request config (Node c fs cs) = children_loop X request config cs []"
| "children_loop X request config [] result = result"
| "children_loop X request config (obj # objs) result =
     (let data = node_data X request config obj;
          data' = setitem ''children''
                    (PList (map PDict (children_recursion X request config obj))) data
      in children_loop X request config objs (result @ [data']))"

text \<open>
  The loop over the modules in \<open>aplus_json\<close>, where \<open>mods\<close> is the list that the source calls
  \<open>modules\<close>: no transform is applied to a module.
\<close>

fun modules_loop ::
  "externals \<Rightarrow> request \<Rightarrow> course_config \<Rightarrow> node list \<Rightarrow> pydict list \<Rightarrow> pydict list" where
  "modules_loop X request config [] mods = mods"
| "modules_loop X request config (m # ms) mods =
     (let mf = model_dict {''children''} (node_fields m);
          mf' = setitem ''children''
                  (PList (map PDict (children_recursion X request config m))) mf
      in modules_loop X request config ms (mods @ [mf']))"

definition aplus_json :: "externals \<Rightarrow> world \<Rightarrow> request \<Rightarrow> string \<Rightarrow> outcome \<times> world" where
  "aplus_json X w request course_key =
     (case get_config w course_key of
        None \<Rightarrow> (Inl (Http404 None), w)
      | Some config \<Rightarrow>
          (let data0 = model_dict {''modules'', ''static_dir''} (course_fields (data config));
               mods = modules_loop X request config (modules (data config)) [];
               data1 = setitem ''modules'' (PList (map PDict mods)) data0;
               data2 = setitem ''build_log_url''
                         (PStr (build_absolute_uri X request
                                  (reverse X ''build-log-json'' [course_key]))) data1
           in (Inr (JsonResponse data2), w)))"

subsection \<open>The listings\<close>

text \<open>\<open>_filter_fields\<close>: \<open>entry[name]\<close> raises \<open>KeyError\<close> for a field the entry lacks.\<close>

fun pick_loop :: "pydict \<Rightarrow> string list \<Rightarrow> pydict \<Rightarrow> exn + pydict" where
  "pick_loop entry [] new_entry = Inr new_entry"
| "pick_loop entry (name # names) new_entry =
     (case map_of entry name of
        None \<Rightarrow> Inl (KeyError name)
      | Some v \<Rightarrow> pick_loop entry names (setitem name v new_entry))"

fun filter_fields_loop :: "pydict list \<Rightarrow> string list \<Rightarrow> pydict list \<Rightarrow> exn + pydict list" where
  "filter_fields_loop [] pick_fields result = Inr result"
| "filter_fields_loop (entry # entries) pick_fields result =
     (case pick_loop entry pick_fields [] of
        Inl e \<Rightarrow> Inl e
      | Inr new_entry \<Rightarrow> filter_fields_loop entries pick_fields (result @ [new_entry]))"

definition filter_fields :: "pydict list \<Rightarrow> string list \<Rightarrow> exn + pydict list" where
  "filter_fields dict_list pick_fields = filter_fields_loop dict_list pick_fields []"

definition index :: "world \<Rightarrow> request \<Rightarrow> outcome \<times> world" where
  "index w request =
     (let course_configs = all_configs w
      in if is_ajax request then
           (Inr (JsonResponse
              [(''ready'', PBool True),
               (''courses'', PList (map (\<lambda>c. PDict [(''key'', PStr (key c)),
                                  (''name'', attr (course_fields (data c)) ''name'')])
                                course_configs))]), w)
         else (Inr (Render ''access/ready.html'' [(''courses'', CConfigs course_configs)]), w))"

definition course :: "externals \<Rightarrow> world \<Rightarrow> request \<Rightarrow> string \<Rightarrow> outcome \<times> world" where
  "course X w request course_key =
     (case get_config w course_key of
        None \<Rightarrow> (Inl (Http404 None), w)
      | Some course_config \<Rightarrow>
          (let exercises = get_exercise_list course_config
           in if is_ajax request then
                (case filter_fields exercises [''key'', ''title''] of
                   Inl e \<Rightarrow> (Inl e, w)
                 | Inr picked \<Rightarrow>
                     (Inr (JsonResponse
                        [(''ready'', PBool True),
                         (''course_name'', attr (course_fields (data course_config)) ''name''),
                         (''exercises'', PList (map PDict picked))]), w))
              else
                (Inr (Render ''access/course.html''
                   [(''course'', CData (data course_config)),
                    (''exercises'', CDicts exercises),
                    (''plus_config_url'', CStr (build_absolute_uri X request
                        (reverse X ''aplus-json'' [key course_config]))),
                    (''build_log_url'', CStr (build_absolute_uri X request
                        (reverse X ''build-log-json'' [course_key])))]), w)))"

section \<open>A small course\<close>

text \<open>
  The course \<open>demo\<close> with default language \<open>fi\<close>: one module \<open>M1\<close> that holds the exercise
  \<open>ex1\<close> without a configuration file, the exercise \<open>ex2\<close> with one, and a chapter with an
  item below it. The collaborators are simple stand-ins: the exercise transform stores
  the record it was given under \<open>exercise\<close>, the chapter transform adds a URL.
\<close>

definition demo_ex1 :: node where
  "demo_ex1 = Node Exercise [(''key'', PStr ''ex1''), (''config'', PNone)] []"

definition demo_ex2 :: node where
  "demo_ex2 = Node Exercise [(''key'', PStr ''ex2''), (''config'', PStr ''ex2.yaml'')] []"

definition demo_item :: node where
  "demo_item = Node GenericItem [(''key'', PStr ''i1''), (''children'', PInt 7)] []"

definition demo_chapter :: node where
  "demo_chapter = Node Chapter [(''key'', PStr ''ch1''), (''title'', PNone)] [demo_item]"

definition demo_module :: node where
  "demo_module = Node Module [(''key'', PStr ''M1'')] [demo_ex1, demo_ex2, demo_chapter]"

definition demo_ex2_en :: pydict where
  "demo_ex2_en = [(''title'', PStr ''Two'')]"

definition demo_ex2_fi :: pydict where
  "demo_ex2_fi = [(''title'', PStr ''Kaksi'')]"

definition demo_ex2_root :: pyval where
  "demo_ex2_root = PDict [(''en'', PDict demo_ex2_en), (''fi'', PDict demo_ex2_fi)]"

definition demo_ex1_data :: pydict where
  "demo_ex1_data = [(''title'', PStr ''One''), (''model_files'', PList [PStr ''files/a.py''])]"

definition demo_config :: course_config where
  "demo_config =
     \<lparr> key = ''demo'',
       lang = ''fi'',
       data = \<lparr> course_fields = [(''name'', PStr ''Demo''), (''static_dir'', PStr ''static''),
                                  (''contact'', PNone)],
                modules = [demo_module] \<rparr>,
       exercise_config = (\<lambda>k. if k = PStr ''ex2'' then demo_ex2_root else PNone),
       exercise_data = (\<lambda>k l. if k = ''ex1'' then Some demo_ex1_data
                               else if k = ''ex2'' then
                                 (if l = Some ''en'' then Some demo_ex2_en else Some demo_ex2_fi)
                               else None),
       get_exercise_list = [[(''key'', PStr ''ex1''), (''title'', PStr ''One'')]] \<rparr>"

definition demo_externals :: externals where
  "demo_externals =
     \<lparr> export_exercise = (\<lambda>request config exercise ofd. setitem ''exercise'' exercise ofd),
       export_chapter = (\<lambda>request config ofd.
                           setitem ''static_content'' (PStr (host request @ ''/static'')) ofd),
       reverse = (\<lambda>name args. ''/'' @ concat args @ ''/'' @ name),
       build_absolute_uri = (\<lambda>request location. host request @ location) \<rparr>"

definition demo_request :: "string option \<Rightarrow> request" where
  "demo_request l =
     \<lparr> GET = (case l of None \<Rightarrow> [] | Some c \<Rightarrow> [(''lang'', c)]),
       is_ajax = True,
       host = ''https://x'' \<rparr>"

definition demo_world :: world where
  "demo_world =
     \<lparr> all_configs = [demo_config],
       get_config = (\<lambda>k. if k = ''demo'' then Some demo_config else None),
       path_to = (\<lambda>k p. ''/srv/'' @ k @ ''/'' @ p),
       read_file = (\<lambda>f. FileNotFoundError),
       active_lang = None,
       opened = [] \<rparr>"

section \<open>The export on a heap of objects\<close>

text \<open>
  The views above compute with values. To see which objects the export writes to, the same
  statements are followed here on a heap: an object is a cell of the heap, named by its
  address; \<open>.dict(...)\<close> and \<open>[]\<close> make a new cell; \<open>d[k] = v\<close> and \<open>l.append(x)\<close> change the cell
  of \<open>d\<close> and of \<open>l\<close>. A node of the configuration is the address of the cell that holds its
  fields, its class and its children; the course is the address of the cell of
  \<open>config.data\<close> and its modules.
\<close>

type_synonym addr = nat

datatype hval = Val pyval | Ref addr

datatype cell = Dict "(string \<times> hval) list" | Lst "addr list"

type_synonym heap = "cell list"

datatype hnode = HNode (haddr: addr) (hcls: cls) (hchildren: "hnode list")

record hconfig =
  data_addr :: addr
  hmodules :: "hnode list"

text \<open>
  Reading an address outside the heap gives an empty dictionary and writing to it changes
  nothing; a program has no such address. Item assignment changes a dictionary, \<open>append\<close>
  a list, and each leaves a cell of the other kind as it is.
\<close>

definition cell_at :: "heap \<Rightarrow> addr \<Rightarrow> cell" where
  "cell_at h a = (if a < length h then h ! a else Dict [])"

definition items_at :: "heap \<Rightarrow> addr \<Rightarrow> (string \<times> hval) list" where
  "items_at h a = (case cell_at h a of Dict kvs \<Rightarrow> kvs | Lst xs \<Rightarrow> [])"

definition attr_h :: "heap \<Rightarrow> addr \<Rightarrow> string \<Rightarrow> hval" where
  "attr_h h a k = (case map_of (items_at h a) k of Some v \<Rightarrow> v | None \<Rightarrow> Val PNone)"

fun truthy_h :: "hval \<Rightarrow> bool" where
  "truthy_h (Val v) = truthy v"
| "truthy_h (Ref a) = True"

definition alloc :: "cell \<Rightarrow> heap \<Rightarrow> addr \<times> heap" where
  "alloc c h = (length h, h @ [c])"

definition dict_h :: "string set \<Rightarrow> addr \<Rightarrow> heap \<Rightarrow> addr \<times> heap" where
  "dict_h exclude a h =
     alloc (Dict (filter (\<lambda>(k, v). k \<notin> exclude \<and> v \<noteq> Val PNone) (items_at h a))) h"

definition setitem_h :: "addr \<Rightarrow> string \<Rightarrow> hval \<Rightarrow> heap \<Rightarrow> heap" where
  "setitem_h d k v h =
     (case cell_at h d of
        Dict kvs \<Rightarrow> h[d := Dict (AList.update k v kvs)]
      | Lst xs \<Rightarrow> h)"

definition append_h :: "addr \<Rightarrow> addr \<Rightarrow> heap \<Rightarrow> heap" where
  "append_h l x h =
     (case cell_at h l of
        Lst xs \<Rightarrow> h[l := Lst (xs @ [x])]
      | Dict kvs \<Rightarrow> h)"

text \<open>
  The collaborators on the heap. The transforms get the address of the dictionary \<open>of\<close>
  and return the address of their result together with the heap they leave.
\<close>

record hexternals =
  hexercise_config :: "heap \<Rightarrow> hconfig \<Rightarrow> hval \<Rightarrow> hval"
  hexport_exercise :: "request \<Rightarrow> hconfig \<Rightarrow> hval \<Rightarrow> addr \<Rightarrow> heap \<Rightarrow> addr \<times> heap"
  hexport_chapter :: "request \<Rightarrow> hconfig \<Rightarrow> addr \<Rightarrow> heap \<Rightarrow> addr \<times> heap"
  hbuild_log_url :: "request \<Rightarrow> string \<Rightarrow> string"

text \<open>
  What the frame property below asks of a transform: it writes only to the dictionary it
  was given and to objects it makes, and it returns that dictionary or an object it made.
\<close>

definition writes_only_new :: "(addr \<Rightarrow> heap \<Rightarrow> addr \<times> heap) \<Rightarrow> bool" where
  "writes_only_new f \<longleftrightarrow>
     (\<forall>ofd h. ofd < length h \<longrightarrow>
        (case f ofd h of
           (d, h') \<Rightarrow> length h \<le> length h' \<and> (d = ofd \<or> length h \<le> d)
                      \<and> (\<forall>a<length h. a \<noteq> ofd \<longrightarrow> h' ! a = h ! a)))"

definition transforms_write_only_new :: "hexternals \<Rightarrow> bool" where
  "transforms_write_only_new X \<longleftrightarrow>
     (\<forall>request config exercise. writes_only_new (hexport_exercise X request config exercise))
     \<and> (\<forall>request config. writes_only_new (hexport_chapter X request config))"

text \<open>The cells below \<open>n\<close> are the same in \<open>h'\<close> as in \<open>h\<close>, and no cell was removed.\<close>

definition unchanged_below :: "nat \<Rightarrow> heap \<Rightarrow> heap \<Rightarrow> bool" where
  "unchanged_below n h h' \<longleftrightarrow> length h \<le> length h' \<and> (\<forall>a<n. h' ! a = h ! a)"

fun children_recursion_h ::
    "hexternals \<Rightarrow> request \<Rightarrow> hconfig \<Rightarrow> hnode \<Rightarrow> heap \<Rightarrow> addr \<times> heap"
  and children_loop_h ::
    "hexternals \<Rightarrow> request \<Rightarrow> hconfig \<Rightarrow> hnode list \<Rightarrow> addr \<Rightarrow> heap \<Rightarrow> heap" where
  "children_recursion_h X request config (HNode a c kids) h =
     (case alloc (Lst []) h of
        (result, h1) \<Rightarrow> (result, children_loop_h X request config kids result h1))"
| "children_loop_h X request config [] result h = h"
| "children_loop_h X request config (obj # objs) result h =
     (case dict_h {''children''} (haddr obj) h of
        (ofd, h1) \<Rightarrow>
          (case (if hcls obj = Exercise \<and> truthy_h (attr_h h1 (haddr obj) ''config'') then
                   hexport_exercise X request config
                     (hexercise_config X h1 config (attr_h h1 (haddr obj) ''key'')) ofd h1
                 else if hcls obj = Chapter then hexport_chapter X request config ofd h1
                 else (ofd, h1)) of
             (data', h2) \<Rightarrow>
               (case children_recursion_h X request config obj h2 of
                  (sub, h3) \<Rightarrow>
                    children_loop_h X request config objs result
                      (append_h result data' (setitem_h data' ''children'' (Ref sub) h3)))))"

fun modules_loop_h ::
  "hexternals \<Rightarrow> request \<Rightarrow> hconfig \<Rightarrow> hnode list \<Rightarrow> addr \<Rightarrow> heap \<Rightarrow> heap" where
  "modules_loop_h X request config [] mods h = h"
| "modules_loop_h X request config (m # ms) mods h =
     (case dict_h {''children''} (haddr m) h of
        (mf, h1) \<Rightarrow>
          (case children_recursion_h X request config m h1 of
             (sub, h2) \<Rightarrow>
               modules_loop_h X request config ms mods
                 (append_h mods mf (setitem_h mf ''children'' (Ref sub) h2))))"

definition aplus_json_h ::
  "hexternals \<Rightarrow> (string \<Rightarrow> hconfig option) \<Rightarrow> request \<Rightarrow> string \<Rightarrow> heap
     \<Rightarrow> (exn + addr) \<times> heap" where
  "aplus_json_h X get request course_key h =
     (case get course_key of
        None \<Rightarrow> (Inl (Http404 None), h)
      | Some config \<Rightarrow>
          (case dict_h {''modules'', ''static_dir''} (data_addr config) h of
             (data', h1) \<Rightarrow>
               (case alloc (Lst []) h1 of
                  (mods, h2) \<Rightarrow>
                    (let h3 = modules_loop_h X request config (hmodules config) mods h2;
                         h4 = setitem_h data' ''modules'' (Ref mods) h3;
                         h5 = setitem_h data' ''build_log_url''
                                (Val (PStr (hbuild_log_url X request course_key))) h4
                     in (Inr data', h5)))))"

subsection \<open>The small course on the heap\<close>

text \<open>
  The course data at address 0, the module at 1, its children at 2, 3 and 4, and the item
  below the chapter at 5. The exercise transform writes into the dictionary it is given,
  the chapter transform returns a new one.
\<close>

definition demo_heap :: heap where
  "demo_heap =
     [Dict [(''name'', Val (PStr ''Demo'')), (''static_dir'', Val (PStr ''static''))],
      Dict [(''key'', Val (PStr ''M1''))],
      Dict [(''key'', Val (PStr ''ex1'')), (''config'', Val PNone)],
      Dict [(''key'', Val (PStr ''ex2'')), (''config'', Val (PStr ''ex2.yaml''))],
      Dict [(''key'', Val (PStr ''ch1''))],
      Dict [(''key'', Val (PStr ''i1''))]]"

definition demo_hconfig :: hconfig where
  "demo_hconfig =
     \<lparr> data_addr = 0,
       hmodules = [HNode 1 Module
                     [HNode 2 Exercise [], HNode 3 Exercise [],
                      HNode 4 Chapter [HNode 5 GenericItem []]]] \<rparr>"

definition demo_get :: "string \<Rightarrow> hconfig option" where
  "demo_get k = (if k = ''demo'' then Some demo_hconfig else None)"

definition demo_hexternals :: hexternals where
  "demo_hexternals =
     \<lparr> hexercise_config = (\<lambda>h config k. Val (PStr ''record'')),
       hexport_exercise = (\<lambda>request config exercise ofd h.
                             (ofd, setitem_h ofd ''exercise'' exercise h)),
       hexport_chapter = (\<lambda>request config ofd h.
                            alloc (Dict (AList.update ''static_content''
                                           (Val (PStr (host request @ ''/static'')))
                                           (items_at h ofd))) h),
       hbuild_log_url = (\<lambda>request k. host request @ ''/'' @ k @ ''/build-log-json'') \<rparr>"

text \<open>
  A chapter transform that does not keep to the condition: it returns the object at
  address 1, which in the heap below is the chapter node itself.
\<close>

definition alias_hexternals :: hexternals where
  "alias_hexternals = demo_hexternals\<lparr> hexport_chapter := (\<lambda>request config ofd h. (1, h)) \<rparr>"

definition alias_heap :: heap where
  "alias_heap = [Dict [(''key'', Val (PStr ''M1''))], Dict [(''key'', Val (PStr ''ch1''))]]"

subsection \<open>The objects of a second export\<close>

text \<open>
  Two exports that run one after the other make their objects at different addresses: the
  second starts on the heap that the first has left. \<open>relocate n J h\<close> is the heap \<open>h\<close>
  with the cells \<open>J\<close> put in after its first \<open>n\<close> cells: the cells from \<open>n\<close> on move up by the
  length of \<open>J\<close>, and so do the references to them.
\<close>

definition reloc_addr :: "nat \<Rightarrow> nat \<Rightarrow> addr \<Rightarrow> addr" where
  "reloc_addr n k a = (if a < n then a else a + k)"

fun reloc_val :: "nat \<Rightarrow> nat \<Rightarrow> hval \<Rightarrow> hval" where
  "reloc_val n k (Val v) = Val v"
| "reloc_val n k (Ref a) = Ref (reloc_addr n k a)"

fun reloc_cell :: "nat \<Rightarrow> nat \<Rightarrow> cell \<Rightarrow> cell" where
  "reloc_cell n k (Dict kvs) = Dict (map (\<lambda>(key, v). (key, reloc_val n k v)) kvs)"
| "reloc_cell n k (Lst xs) = Lst (map (reloc_addr n k) xs)"

definition relocate :: "nat \<Rightarrow> cell list \<Rightarrow> heap \<Rightarrow> heap" where
  "relocate n J h = take n h @ J @ map (reloc_cell n (length J)) (drop n h)"

text \<open>
  The first \<open>n\<close> cells refer to nothing from \<open>n\<close> on: the configuration does not point into
  the objects of a request.
\<close>

definition closed_below :: "nat \<Rightarrow> heap \<Rightarrow> bool" where
  "closed_below n h \<longleftrightarrow> (\<forall>a<n. a < length h \<longrightarrow> (\<forall>k. reloc_cell n k (h ! a) = h ! a))"

fun nodes_below :: "nat \<Rightarrow> hnode \<Rightarrow> bool" where
  "nodes_below n (HNode a c kids) = (a < n \<and> list_all (nodes_below n) kids)"

text \<open>
  What the second theorem on the heap asks of the collaborators: they behave the same
  way wherever the objects of the request lie and whatever other objects the heap holds.
  A transform that is run on the relocated heap, on the relocated dictionary, returns the
  relocated result and leaves the relocated heap.
\<close>

definition relocatable :: "nat \<Rightarrow> (hval \<Rightarrow> addr \<Rightarrow> heap \<Rightarrow> addr \<times> heap) \<Rightarrow> bool" where
  "relocatable n f \<longleftrightarrow>
     (\<forall>J e ofd h. n \<le> ofd \<and> ofd < length h \<longrightarrow>
        f (reloc_val n (length J) e) (reloc_addr n (length J) ofd) (relocate n J h)
          = (case f e ofd h of
               (d, h') \<Rightarrow> (reloc_addr n (length J) d, relocate n J h')))"

definition transforms_relocatable :: "nat \<Rightarrow> hexternals \<Rightarrow> bool" where
  "transforms_relocatable n X \<longleftrightarrow>
     (\<forall>request config. relocatable n (hexport_exercise X request config))
     \<and> (\<forall>request config. relocatable n (\<lambda>e. hexport_chapter X request config))
     \<and> (\<forall>J h config key. n \<le> length h \<longrightarrow>
           hexercise_config X (relocate n J h) config (reloc_val n (length J) key)
             = reloc_val n (length J) (hexercise_config X h config key))"

text \<open>
  The JSON value that an object of the heap stands for, read to a given depth: a
  dictionary with its entries, a list with its elements, a reference followed to the
  object it names. \<open>document\<close> is what \<open>JsonResponse\<close> sends for the outcome of the export.
\<close>

fun json_of :: "nat \<Rightarrow> heap \<Rightarrow> hval \<Rightarrow> pyval" where
  "json_of 0 h v = PNone"
| "json_of (Suc depth) h (Val v) = v"
| "json_of (Suc depth) h (Ref a) =
     (case cell_at h a of
        Dict kvs \<Rightarrow> PDict (map (\<lambda>(fld, v). (fld, json_of depth h v)) kvs)
      | Lst xs \<Rightarrow> PList (map (\<lambda>x. json_of depth h (Ref x)) xs))"

fun document :: "nat \<Rightarrow> (exn + addr) \<times> heap \<Rightarrow> exn + pyval" where
  "document depth (Inl e, h) = Inl e"
| "document depth (Inr a, h) = Inr (json_of depth h (Ref a))"

text \<open>
  A chapter transform with a hidden counter: it writes the number of objects that the heap
  holds into the dictionary. \<open>counter_heap1\<close> and \<open>counter_heap2\<close> are the heaps after a first
  and a second export of the children of a module whose only child is a chapter.
\<close>

definition counter_hexternals :: hexternals where
  "counter_hexternals =
     demo_hexternals\<lparr> hexport_chapter := (\<lambda>request config ofd h.
        (ofd, setitem_h ofd ''serial'' (Val (PInt (int (length h)))) h)) \<rparr>"

definition counter_heap1 :: heap where
  "counter_heap1 = alias_heap @
     [Lst [3],
      Dict [(''key'', Val (PStr ''ch1'')), (''serial'', Val (PInt 4)), (''children'', Ref 4)],
      Lst []]"

definition counter_heap2 :: heap where
  "counter_heap2 = counter_heap1 @
     [Lst [6],
      Dict [(''key'', Val (PStr ''ch1'')), (''serial'', Val (PInt 7)), (''children'', Ref 7)],
      Lst []]"

section \<open>Properties of the locate helper\<close>

lemma split_py_not_Nil: "split_py sep s \<noteq> []"
  by (subst split_py.simps) (simp split: list.split)

lemma takeWhile_stop: "takeWhile (\<lambda>c. c \<noteq> x) (xs @ x # ys) = takeWhile (\<lambda>c. c \<noteq> x) xs"
  by (induction xs) simp_all

lemma last_split_py:
  "last (split_py sep s) = rev (takeWhile (\<lambda>c. c \<noteq> sep) (rev s))"
proof (induction sep s rule: split_py.induct)
  case (1 sep s)
  show ?case
  proof (cases "dropWhile (\<lambda>c. c \<noteq> sep) s")
    case Nil
    have sp: "split_py sep s = [takeWhile (\<lambda>c. c \<noteq> sep) s]"
      by (subst split_py.simps) (simp only: Nil list.case)
    from Nil have all: "\<forall>c\<in>set s. c \<noteq> sep" by (simp add: dropWhile_eq_Nil_conv)
    then have t1: "takeWhile (\<lambda>c. c \<noteq> sep) s = s" by simp
    from all have t2: "takeWhile (\<lambda>c. c \<noteq> sep) (rev s) = rev s" by simp
    show ?thesis unfolding sp t2 t1 by simp
  next
    case (Cons x rest)
    then have x: "x = sep"
      by (metis (mono_tags, lifting) hd_dropWhile list.distinct(1) list.sel(1))
    have s: "s = takeWhile (\<lambda>c. c \<noteq> sep) s @ sep # rest"
      using Cons x by (metis takeWhile_dropWhile_id)
    have "rev s = rev rest @ sep # rev (takeWhile (\<lambda>c. c \<noteq> sep) s)"
      by (subst s) simp
    then have "takeWhile (\<lambda>c. c \<noteq> sep) (rev s) = takeWhile (\<lambda>c. c \<noteq> sep) (rev rest)"
      by (simp only: takeWhile_stop)
    moreover have "split_py sep s = takeWhile (\<lambda>c. c \<noteq> sep) s # split_py sep rest"
      by (subst split_py.simps) (simp only: Cons list.case)
    then have "last (split_py sep s) = last (split_py sep rest)"
      by (simp add: split_py_not_Nil)
    ultimately show ?thesis using "1.IH" [OF Cons] by simp
  qed
qed

lemma find_name_loop_find:
  "find_name_loop parameter (map (\<lambda>path. (path, f path)) paths)
     = List.find (\<lambda>path. f path = parameter) paths"
  by (induction paths) simp_all

text \<open>
  Claim C4. For every declared file list and every requested basename, \<open>find_name\<close>
  returns the first entry, in list order, whose final path segment (the characters after
  its last \<open>/\<close>, the whole entry when it has none) is equal, character for character, to
  the requested basename, and returns \<open>None\<close> when no entry matches. The helper is a
  function of the list and the basename alone: it takes no file system.
\<close>

theorem find_name_first_match:
  "find_name parameter paths parameter
     = List.find (\<lambda>path. rev (takeWhile (\<lambda>c. c \<noteq> CHR ''/'') (rev path)) = parameter) paths"
  unfolding find_name_def Let_def last_segment_def
  by (simp add: find_name_loop_find last_split_py)

text \<open>
  Claim C10. The result of \<open>find_name\<close> does not depend on its second argument: each
  entry's basename is compared with the enclosing view's \<open>parameter\<close>, whatever is passed
  as \<open>name\<close>.
\<close>

theorem find_name_ignores_name:
  "find_name parameter paths x = find_name parameter paths y"
  by (simp add: find_name_def)


section \<open>Properties of the export of children\<close>

lemma children_loop_map:
  "children_loop X request config objs result
     = result @ map (\<lambda>obj. setitem ''children''
                          (PList (map PDict (children_recursion X request config obj)))
                          (node_data X request config obj)) objs"
  by (induction objs arbitrary: result) (simp_all add: Let_def)

lemma children_recursion_map:
  "children_recursion X request config parent
     = map (\<lambda>obj. setitem ''children''
                    (PList (map PDict (children_recursion X request config obj)))
                    (node_data X request config obj)) (children parent)"
  by (cases parent) (simp add: children_loop_map)

lemma map_of_setitem: "map_of (setitem k v d) k = Some v"
  by (simp add: setitem_def update_conv')

lemma map_of_setitem_other: "k' \<noteq> k \<Longrightarrow> map_of (setitem k v d) k' = map_of d k'"
  by (simp add: setitem_def update_conv')

lemma delete_setitem: "AList.delete k (setitem k v d) = AList.delete k d"
  by (simp add: setitem_def delete_update_same)

lemma setitem_fresh: "k \<notin> fst ` set d \<Longrightarrow> setitem k v d = d @ [(k, v)]"
  unfolding setitem_def by (induction d) auto

lemma model_dict_filter:
  "model_dict {k} fs = filter (\<lambda>kv. fst kv \<noteq> k \<and> snd kv \<noteq> PNone) fs"
  unfolding model_dict_def by (rule filter_cong) auto

lemma model_dict_keys: "k \<in> exclude \<Longrightarrow> k \<notin> fst ` set (model_dict exclude fs)"
  unfolding model_dict_def by auto

text \<open>
  Claim C1. For every parent node, every request and every course configuration,
  \<open>children_recursion\<close> returns one dictionary per child of the parent, in the order of the
  children, whatever the classes of the children are, and the \<open>children\<close> entry of each
  dictionary is the export of that child's own children.
\<close>

theorem children_recursion_order:
  "children_recursion X request config parent
     = map (\<lambda>obj. setitem ''children''
                    (PList (map PDict (children_recursion X request config obj)))
                    (node_data X request config obj)) (children parent)
   \<and> length (children_recursion X request config parent) = length (children parent)
   \<and> map (\<lambda>d. map_of d ''children'') (children_recursion X request config parent)
       = map (\<lambda>obj. Some (PList (map PDict (children_recursion X request config obj))))
           (children parent)"
proof -
  let ?f = "\<lambda>obj. setitem ''children''
                    (PList (map PDict (children_recursion X request config obj)))
                    (node_data X request config obj)"
  have eq: "children_recursion X request config parent = map ?f (children parent)"
    by (rule children_recursion_map)
  have len: "length (children_recursion X request config parent) = length (children parent)"
    by (subst eq) simp
  have ch: "map (\<lambda>d. map_of d ''children'') (children_recursion X request config parent)
       = map (\<lambda>obj. Some (PList (map PDict (children_recursion X request config obj))))
           (children parent)"
    by (subst eq) (simp add: map_of_setitem)
  from eq len ch show ?thesis by blast
qed

text \<open>
  Claim C2, as amended. The dictionary exported for the \<open>i\<close>-th child starts from the
  child's fields without \<open>children\<close> and without the fields whose value is \<open>None\<close>. For an
  exercise whose \<open>config\<close> is true it is, apart from its \<open>children\<close> entry, the result of the
  exercise transform on the record that the course configuration holds for the child's
  key; the record is looked up by the key alone. For a chapter it is, apart from its
  \<open>children\<close> entry, the result of the chapter transform. For every other child it is those
  fields followed by the \<open>children\<close> entry.
\<close>

theorem children_recursion_transform:
  assumes "i < length (children parent)"
    and "obj = children parent ! i"
    and "sf = filter (\<lambda>kv. fst kv \<noteq> ''children'' \<and> snd kv \<noteq> PNone) (node_fields obj)"
    and "out = children_recursion X request config parent ! i"
  shows "(cls obj = Exercise \<and> truthy (attr (node_fields obj) ''config'') \<longrightarrow>
            AList.delete ''children'' out
              = AList.delete ''children''
                  (export_exercise X request config
                     (exercise_config config (attr (node_fields obj) ''key'')) sf))
       \<and> (cls obj = Chapter \<longrightarrow>
            AList.delete ''children'' out
              = AList.delete ''children'' (export_chapter X request config sf))
       \<and> (cls obj \<noteq> Chapter \<and> \<not> (cls obj = Exercise \<and> truthy (attr (node_fields obj) ''config''))
            \<longrightarrow> out = sf @ [(''children'',
                          PList (map PDict (children_recursion X request config obj)))])"
proof -
  have out: "out = setitem ''children''
                    (PList (map PDict (children_recursion X request config obj)))
                    (node_data X request config obj)"
    using assms(1,2,4) by (subst (asm) children_recursion_map) simp
  have sf: "sf = model_dict {''children''} (node_fields obj)"
    using assms(3) by (simp only: model_dict_filter)
  have fresh: "''children'' \<notin> fst ` set sf"
    unfolding sf by (rule model_dict_keys) simp
  show ?thesis
    unfolding out
    by (auto simp: node_data_def Let_def sf [symmetric] delete_setitem setitem_fresh [OF fresh])
qed

text \<open>
  The three cases of claim C2 on the module of the small course: an exercise without a
  configuration file, an exercise with one, and a chapter.
\<close>

theorem children_recursion_transform_witness:
  "children_recursion demo_externals (demo_request (Some ''en'')) demo_config demo_module ! 0
     = [(''key'', PStr ''ex1''), (''children'', PList [])]
   \<and> AList.delete ''children''
       (children_recursion demo_externals (demo_request (Some ''en'')) demo_config demo_module ! 1)
     = [(''key'', PStr ''ex2''), (''config'', PStr ''ex2.yaml''), (''exercise'', demo_ex2_root)]
   \<and> AList.delete ''children''
       (children_recursion demo_externals (demo_request (Some ''en'')) demo_config demo_module ! 2)
     = [(''key'', PStr ''ch1''), (''static_content'', PStr ''https://x/static'')]"
proof -
  let ?r = "demo_request (Some ''en'')"
  have c: "children demo_module = [demo_ex1, demo_ex2, demo_chapter]"
    by (simp add: demo_module_def)
  have a0: "children_recursion demo_externals ?r demo_config demo_ex1 = []"
    by (simp add: demo_ex1_def)
  have "children_recursion demo_externals ?r demo_config demo_module ! 0
     = [(''key'', PStr ''ex1''), (''children'', PList [])]"
    using children_recursion_transform [of 0 demo_module demo_ex1 _ _ demo_externals ?r demo_config,
        OF _ _ refl refl] a0
    by (simp add: c) (simp add: demo_ex1_def attr_def)
  moreover have "AList.delete ''children''
       (children_recursion demo_externals ?r demo_config demo_module ! 1)
     = [(''key'', PStr ''ex2''), (''config'', PStr ''ex2.yaml''), (''exercise'', demo_ex2_root)]"
    using children_recursion_transform [of 1 demo_module demo_ex2 _ _ demo_externals ?r demo_config,
        OF _ _ refl refl]
    by (simp add: c) (simp add: demo_ex2_def attr_def demo_externals_def demo_config_def setitem_def)
  moreover have "AList.delete ''children''
       (children_recursion demo_externals ?r demo_config demo_module ! 2)
     = [(''key'', PStr ''ch1''), (''static_content'', PStr ''https://x/static'')]"
    using children_recursion_transform [of 2 demo_module demo_chapter _ _ demo_externals ?r demo_config,
        OF _ _ refl refl]
    by (simp add: c) (simp add: demo_chapter_def attr_def demo_externals_def demo_request_def setitem_def)
  ultimately show ?thesis by blast
qed

text \<open>
  Claim C2 as it was stated has the exercise transform applied to the record for the
  child's key and the language of the request. In the small course the record for \<open>ex2\<close>
  in English is \<open>demo_ex2_en\<close>, the export of \<open>ex2\<close> for a request in English is not the
  transform of that record, and it is the same as for a request in Finnish.
\<close>

theorem children_recursion_language_counterexample:
  "exercise_data demo_config ''ex2'' (Some ''en'') = Some demo_ex2_en
   \<and> exercise_data demo_config ''ex2'' (Some ''fi'') = Some demo_ex2_fi
   \<and> demo_ex2_en \<noteq> demo_ex2_fi
   \<and> children_recursion demo_externals (demo_request (Some ''en'')) demo_config
       (Node Module [] [demo_ex2])
     \<noteq> [setitem ''children'' (PList [])
          (export_exercise demo_externals (demo_request (Some ''en'')) demo_config
             (PDict demo_ex2_en) (model_dict {''children''} (node_fields demo_ex2)))]
   \<and> children_recursion demo_externals (demo_request (Some ''en'')) demo_config
       (Node Module [] [demo_ex2])
     = children_recursion demo_externals (demo_request (Some ''fi'')) demo_config
       (Node Module [] [demo_ex2])"
  by (simp add: demo_config_def demo_ex2_def demo_externals_def node_data_def attr_def
      model_dict_def setitem_def demo_ex2_root_def demo_ex2_en_def demo_ex2_fi_def)

section \<open>Properties of the lookup with the language\<close>

lemma get_course_exercise_lang_found:
  assumes "get_config w course_key = Some config"
    and "exercise_data config exercise_key (map_option (take 2) lang_code) = Some exercise"
  shows "get_course_exercise_lang w course_key exercise_key lang_code
           = (Inr (config, exercise,
                   (case lang_code of
                      None \<Rightarrow> lang config
                    | Some s \<Rightarrow> if s = [] then lang config else take 2 s)),
              w\<lparr>active_lang := Some (case lang_code of
                                        None \<Rightarrow> lang config
                                      | Some s \<Rightarrow> if s = [] then lang config else take 2 s)\<rparr>)"
proof (cases lang_code)
  case None
  with assms show ?thesis by (simp add: get_course_exercise_lang_def Let_def)
next
  case (Some s)
  with assms show ?thesis by (cases "s = []") (simp_all add: get_course_exercise_lang_def Let_def)
qed

lemma get_course_exercise_lang_unknown:
  assumes "get_config w course_key = None
           \<or> (\<exists>config. get_config w course_key = Some config
                 \<and> exercise_data config exercise_key (map_option (take 2) lang_code) = None)"
  shows "get_course_exercise_lang w course_key exercise_key lang_code = (Inl (Http404 None), w)"
proof (cases lang_code)
  case None
  with assms show ?thesis by (auto simp: get_course_exercise_lang_def Let_def)
next
  case (Some s)
  with assms show ?thesis by (cases "s = []") (auto simp: get_course_exercise_lang_def Let_def)
qed

text \<open>
  Claim C3, as amended. Whenever the store finds the course and the course finds the
  exercise, a requested language code that is present and not empty is cut to its first
  two characters and is then returned and activated, with no check on the language
  itself; a requested code that is absent or empty resolves to the default language of
  the course, which is returned and activated.
\<close>

theorem get_course_exercise_lang_resolves:
  assumes "get_config w course_key = Some config"
    and "exercise_data config exercise_key (map_option (take 2) lang_code) = Some exercise"
  shows "get_course_exercise_lang w course_key exercise_key lang_code
           = (Inr (config, exercise,
                   (case lang_code of
                      None \<Rightarrow> lang config
                    | Some s \<Rightarrow> if s = [] then lang config else take 2 s)),
              w\<lparr>active_lang := Some (case lang_code of
                                        None \<Rightarrow> lang config
                                      | Some s \<Rightarrow> if s = [] then lang config else take 2 s)\<rparr>)"
  using assms by (rule get_course_exercise_lang_found)

text \<open>
  The examples of claim C3 on the small course: \<open>en-GB\<close> gives \<open>en\<close>, an absent code
  gives the default \<open>fi\<close>, and \<open>fr\<close> gives \<open>fr\<close>.
\<close>

theorem get_course_exercise_lang_resolves_witness:
  "get_course_exercise_lang demo_world ''demo'' ''ex1'' (Some ''en-GB'')
     = (Inr (demo_config, demo_ex1_data, ''en''), demo_world\<lparr>active_lang := Some ''en''\<rparr>)
   \<and> get_course_exercise_lang demo_world ''demo'' ''ex1'' None
     = (Inr (demo_config, demo_ex1_data, ''fi''), demo_world\<lparr>active_lang := Some ''fi''\<rparr>)
   \<and> get_course_exercise_lang demo_world ''demo'' ''ex1'' (Some ''fr'')
     = (Inr (demo_config, demo_ex1_data, ''fr''), demo_world\<lparr>active_lang := Some ''fr''\<rparr>)"
proof -
  have g: "get_config demo_world ''demo'' = Some demo_config"
    by (simp add: demo_world_def)
  have e: "\<And>l. exercise_data demo_config ''ex1'' l = Some demo_ex1_data"
    by (simp add: demo_config_def)
  have l: "lang demo_config = ''fi''"
    by (simp add: demo_config_def)
  show ?thesis
    using get_course_exercise_lang_resolves [OF g e, of "Some ''en-GB''"]
      get_course_exercise_lang_resolves [OF g e, of None]
      get_course_exercise_lang_resolves [OF g e, of "Some ''fr''"]
    by (simp add: l)
qed

text \<open>
  Claim C3 as it was stated returns every present code after truncation. The empty code,
  which \<open>?lang=\<close> sends, is present; it is not returned but replaced by the default
  language.
\<close>

theorem get_course_exercise_lang_empty_counterexample:
  "get_course_exercise_lang demo_world ''demo'' ''ex1'' (Some '''')
     = (Inr (demo_config, demo_ex1_data, ''fi''), demo_world\<lparr>active_lang := Some ''fi''\<rparr>)
   \<and> take 2 '''' \<noteq> ''fi''"
  by (simp add: get_course_exercise_lang_def Let_def demo_world_def demo_config_def)

section \<open>Properties of the file views\<close>

lemma all_strs_PStr: "all_strs (map PStr paths) = Inr paths"
  by (induction paths) simp_all

lemma iter_paths_PStr: "iter_paths (PList (map PStr paths)) = Inr paths"
  by (simp add: all_strs_PStr)

lemma find_name_None:
  "(find_name parameter paths name = None) = (\<forall>p\<in>set paths. last_segment p \<noteq> parameter)"
  unfolding find_name_def Let_def by (induction paths) auto

lemma serve_file_unknown:
  assumes "get_config w course_key = None
           \<or> (\<exists>config. get_config w course_key = Some config
                 \<and> exercise_data config exercise_key
                      (map_option (take 2) (map_of (GET request) ''lang'')) = None)"
  shows "serve_file files_key missing w request course_key exercise_key parameter
           = (Inl (Http404 None), w)"
  by (simp add: serve_file_def Let_def get_course_exercise_lang_unknown [OF assms])

lemma serve_file_found:
  assumes "get_config w course_key = Some config"
    and "exercise_data config exercise_key
           (map_option (take 2) (map_of (GET request) ''lang'')) = Some exercise"
    and "w1 = w\<lparr>active_lang := Some (case map_of (GET request) ''lang'' of
                                        None \<Rightarrow> lang config
                                      | Some s \<Rightarrow> if s = [] then lang config else take 2 s)\<rparr>"
  shows "serve_file files_key missing w request course_key exercise_key parameter
           = (case (case map_of exercise files_key of
                      None \<Rightarrow> Inr None
                    | Some v \<Rightarrow>
                        (case iter_paths v of
                           Inl e \<Rightarrow> Inl e
                         | Inr paths \<Rightarrow> Inr (find_name parameter paths parameter))) of
                Inl e \<Rightarrow> (Inl e, w1)
              | Inr None \<Rightarrow> (Inl (Http404 None), w1)
              | Inr (Some p) \<Rightarrow>
                  if p \<noteq> [] then
                    (case read_file w (path_to w (key config) p) of
                       Content content \<Rightarrow>
                         (Inr (HttpResponse content ''text/plain''),
                          w1\<lparr>opened := opened w @ [path_to w (key config) p]\<rparr>)
                     | FileNotFoundError \<Rightarrow>
                         (Inl (Http404 (Some missing)),
                          w1\<lparr>opened := opened w @ [path_to w (key config) p]\<rparr>)
                     | OtherOSError \<Rightarrow>
                         (Inl OSError, w1\<lparr>opened := opened w @ [path_to w (key config) p]\<rparr>))
                  else (Inl (Http404 None), w1))"
  unfolding assms(3)
  by (simp add: serve_file_def Let_def get_course_exercise_lang_found [OF assms(1,2)]
        split: sum.split option.split file_result.split)

lemma serve_file_opened:
  "length (opened (snd (serve_file files_key missing w request course_key exercise_key parameter)))
     \<le> Suc (length (opened w))"
  by (simp add: serve_file_def get_course_exercise_lang_def Let_def
        split: option.split sum.split file_result.split)

lemma serve_file_not_found:
  assumes nl: "nl = map_option (take 2) (map_of (GET request) ''lang'')"
    and R: "R = serve_file files_key missing w request course_key exercise_key parameter"
  shows "(get_config w course_key = None \<longrightarrow> fst R = Inl (Http404 None))
       \<and> (\<forall>config. get_config w course_key = Some config
             \<and> exercise_data config exercise_key nl = None
             \<longrightarrow> fst R = Inl (Http404 None))
       \<and> (\<forall>config exercise. get_config w course_key = Some config
             \<and> exercise_data config exercise_key nl = Some exercise
             \<and> map_of exercise files_key = None
             \<longrightarrow> fst R = Inl (Http404 None))
       \<and> (\<forall>config exercise paths. get_config w course_key = Some config
             \<and> exercise_data config exercise_key nl = Some exercise
             \<and> map_of exercise files_key = Some (PList (map PStr paths))
             \<and> (\<forall>p\<in>set paths. last_segment p \<noteq> parameter)
             \<longrightarrow> fst R = Inl (Http404 None))
       \<and> (\<forall>config exercise paths p. get_config w course_key = Some config
             \<and> exercise_data config exercise_key nl = Some exercise
             \<and> map_of exercise files_key = Some (PList (map PStr paths))
             \<and> find_name parameter paths parameter = Some p \<and> p \<noteq> []
             \<and> read_file w (path_to w (key config) p) = FileNotFoundError
             \<longrightarrow> fst R = Inl (Http404 (Some missing))
                 \<and> opened (snd R) = opened w @ [path_to w (key config) p])
       \<and> status_code (Inl (Http404 (Some missing))) = 404
       \<and> status_code (Inl (Http404 None)) = 404
       \<and> length (opened (snd R)) \<le> Suc (length (opened w))"
proof -
  have 1: "get_config w course_key = None \<longrightarrow> fst R = Inl (Http404 None)"
    unfolding R by (simp add: serve_file_unknown)
  have 2: "\<forall>config. get_config w course_key = Some config
             \<and> exercise_data config exercise_key nl = None
             \<longrightarrow> fst R = Inl (Http404 None)"
    unfolding R nl by (simp add: serve_file_unknown)
  have 3: "\<forall>config exercise. get_config w course_key = Some config
             \<and> exercise_data config exercise_key nl = Some exercise
             \<and> map_of exercise files_key = None
             \<longrightarrow> fst R = Inl (Http404 None)"
  proof (intro allI impI, elim conjE)
    fix config exercise
    assume g: "get_config w course_key = Some config"
      and e: "exercise_data config exercise_key nl = Some exercise"
      and m: "map_of exercise files_key = None"
    from serve_file_found [OF g e [unfolded nl] refl, of files_key missing parameter]
    show "fst R = Inl (Http404 None)"
      unfolding R by (auto simp: m)
  qed
  have 4: "\<forall>config exercise paths. get_config w course_key = Some config
             \<and> exercise_data config exercise_key nl = Some exercise
             \<and> map_of exercise files_key = Some (PList (map PStr paths))
             \<and> (\<forall>p\<in>set paths. last_segment p \<noteq> parameter)
             \<longrightarrow> fst R = Inl (Http404 None)"
  proof (intro allI impI, elim conjE)
    fix config exercise paths
    assume g: "get_config w course_key = Some config"
      and e: "exercise_data config exercise_key nl = Some exercise"
      and m: "map_of exercise files_key = Some (PList (map PStr paths))"
      and n: "\<forall>p\<in>set paths. last_segment p \<noteq> parameter"
    from n have f: "find_name parameter paths parameter = None"
      by (simp only: find_name_None)
    from serve_file_found [OF g e [unfolded nl] refl, of files_key missing parameter]
    show "fst R = Inl (Http404 None)"
      unfolding R by (auto simp: m f all_strs_PStr)
  qed
  have 5: "\<forall>config exercise paths p. get_config w course_key = Some config
             \<and> exercise_data config exercise_key nl = Some exercise
             \<and> map_of exercise files_key = Some (PList (map PStr paths))
             \<and> find_name parameter paths parameter = Some p \<and> p \<noteq> []
             \<and> read_file w (path_to w (key config) p) = FileNotFoundError
             \<longrightarrow> fst R = Inl (Http404 (Some missing))
                 \<and> opened (snd R) = opened w @ [path_to w (key config) p]"
  proof (intro allI impI, elim conjE)
    fix config exercise paths p
    assume g: "get_config w course_key = Some config"
      and e: "exercise_data config exercise_key nl = Some exercise"
      and m: "map_of exercise files_key = Some (PList (map PStr paths))"
      and f: "find_name parameter paths parameter = Some p"
      and p: "p \<noteq> []"
      and r: "read_file w (path_to w (key config) p) = FileNotFoundError"
    from serve_file_found [OF g e [unfolded nl] refl, of files_key missing parameter]
    show "fst R = Inl (Http404 (Some missing))
            \<and> opened (snd R) = opened w @ [path_to w (key config) p]"
      unfolding R by (auto simp: m f p r all_strs_PStr)
  qed
  have 6: "length (opened (snd R)) \<le> Suc (length (opened w))"
    unfolding R by (rule serve_file_opened)
  from 1 2 3 4 5 6 show ?thesis by simp
qed

text \<open>
  Claim C5. For a request for a model file or a template file, every failure of the
  resolution ends the request with \<open>Http404\<close>: an unknown course key, an unknown exercise
  key, an exercise without the file list, a file list in which no entry has the requested
  basename, and a matched entry whose file is not on disk. The last case carries a message
  of its own, and the status code is 404 with or without the message. No step is repeated:
  at most one file is opened.
\<close>

theorem file_request_not_found:
  assumes "(view, files_key, missing) = (exercise_model, ''model_files'', ''Model file missing'')
           \<or> (view, files_key, missing)
               = (exercise_template, ''template_files'', ''Template file missing'')"
    and "nl = map_option (take 2) (map_of (GET request) ''lang'')"
    and "R = view w request course_key exercise_key parameter"
  shows "(get_config w course_key = None \<longrightarrow> fst R = Inl (Http404 None))
       \<and> (\<forall>config. get_config w course_key = Some config
             \<and> exercise_data config exercise_key nl = None
             \<longrightarrow> fst R = Inl (Http404 None))
       \<and> (\<forall>config exercise. get_config w course_key = Some config
             \<and> exercise_data config exercise_key nl = Some exercise
             \<and> map_of exercise files_key = None
             \<longrightarrow> fst R = Inl (Http404 None))
       \<and> (\<forall>config exercise paths. get_config w course_key = Some config
             \<and> exercise_data config exercise_key nl = Some exercise
             \<and> map_of exercise files_key = Some (PList (map PStr paths))
             \<and> (\<forall>p\<in>set paths. last_segment p \<noteq> parameter)
             \<longrightarrow> fst R = Inl (Http404 None))
       \<and> (\<forall>config exercise paths p. get_config w course_key = Some config
             \<and> exercise_data config exercise_key nl = Some exercise
             \<and> map_of exercise files_key = Some (PList (map PStr paths))
             \<and> find_name parameter paths parameter = Some p \<and> p \<noteq> []
             \<and> read_file w (path_to w (key config) p) = FileNotFoundError
             \<longrightarrow> fst R = Inl (Http404 (Some missing))
                 \<and> opened (snd R) = opened w @ [path_to w (key config) p])
       \<and> status_code (Inl (Http404 (Some missing))) = 404
       \<and> status_code (Inl (Http404 None)) = 404
       \<and> length (opened (snd R)) \<le> Suc (length (opened w))"
proof -
  from assms(1,3)
  have "R = serve_file files_key missing w request course_key exercise_key parameter"
    by (auto simp: exercise_model_def exercise_template_def)
  with assms(2) show ?thesis by (rule serve_file_not_found)
qed

text \<open>
  The failures of claim C5 on the small course, none of whose files is on disk.
\<close>

theorem file_request_not_found_witness:
  "fst (exercise_model demo_world (demo_request None) ''nocourse'' ''ex1'' ''a.py'')
     = Inl (Http404 None)
   \<and> fst (exercise_model demo_world (demo_request None) ''demo'' ''noexercise'' ''a.py'')
     = Inl (Http404 None)
   \<and> fst (exercise_template demo_world (demo_request None) ''demo'' ''ex1'' ''a.py'')
     = Inl (Http404 None)
   \<and> fst (exercise_model demo_world (demo_request None) ''demo'' ''ex1'' ''b.py'')
     = Inl (Http404 None)
   \<and> fst (exercise_model demo_world (demo_request None) ''demo'' ''ex1'' ''a.py'')
     = Inl (Http404 (Some ''Model file missing''))
   \<and> opened (snd (exercise_model demo_world (demo_request None) ''demo'' ''ex1'' ''a.py''))
     = [''/srv/demo/files/a.py'']"
proof -
  let ?R = "\<lambda>view ck ek p. view demo_world (demo_request None) ck ek p"
  have nl: "None = map_option (take 2) (map_of (GET (demo_request None)) ''lang'')"
    by (simp add: demo_request_def)
  have g: "get_config demo_world ''demo'' = Some demo_config"
    and g0: "get_config demo_world ''nocourse'' = None"
    by (simp_all add: demo_world_def)
  have e: "exercise_data demo_config ''ex1'' None = Some demo_ex1_data"
    and e0: "exercise_data demo_config ''noexercise'' None = None"
    by (simp_all add: demo_config_def)
  have m: "map_of demo_ex1_data ''model_files'' = Some (PList (map PStr [''files/a.py'']))"
    and t: "map_of demo_ex1_data ''template_files'' = None"
    by (simp_all add: demo_ex1_data_def)
  have seg: "last_segment ''files/a.py'' = ''a.py''"
    by (simp add: last_segment_def last_split_py)
  have fa: "find_name ''a.py'' [''files/a.py''] ''a.py'' = Some ''files/a.py''"
    by (simp add: find_name_def seg)
  have fb: "\<forall>p\<in>set [''files/a.py'']. last_segment p \<noteq> ''b.py''"
    by (simp add: seg)
  have rd: "read_file demo_world (path_to demo_world (key demo_config) ''files/a.py'')
              = FileNotFoundError"
    by (simp add: demo_world_def)
  have pt: "path_to demo_world (key demo_config) ''files/a.py'' = ''/srv/demo/files/a.py''"
    by (simp add: demo_world_def demo_config_def)
  have op: "opened demo_world = []" by (simp add: demo_world_def)
  have 1: "fst (?R exercise_model ''nocourse'' ''ex1'' ''a.py'') = Inl (Http404 None)"
    using file_request_not_found [OF disjI1 [OF refl] nl refl,
        of demo_world "''nocourse''" "''ex1''" "''a.py''"] g0
    by blast
  have 2: "fst (?R exercise_model ''demo'' ''noexercise'' ''a.py'') = Inl (Http404 None)"
    using file_request_not_found [OF disjI1 [OF refl] nl refl,
        of demo_world "''demo''" "''noexercise''" "''a.py''"] g e0
    by blast
  have 3: "fst (?R exercise_template ''demo'' ''ex1'' ''a.py'') = Inl (Http404 None)"
    using file_request_not_found [OF disjI2 [OF refl] nl refl,
        of demo_world "''demo''" "''ex1''" "''a.py''"] g e t
    by blast
  have 4: "fst (?R exercise_model ''demo'' ''ex1'' ''b.py'') = Inl (Http404 None)"
    using file_request_not_found [OF disjI1 [OF refl] nl refl,
        of demo_world "''demo''" "''ex1''" "''b.py''"] g e m fb
    by blast
  have 5: "fst (?R exercise_model ''demo'' ''ex1'' ''a.py'')
             = Inl (Http404 (Some ''Model file missing''))
           \<and> opened (snd (?R exercise_model ''demo'' ''ex1'' ''a.py''))
             = opened demo_world @ [path_to demo_world (key demo_config) ''files/a.py'']"
    using file_request_not_found [OF disjI1 [OF refl] nl refl,
        of demo_world "''demo''" "''ex1''" "''a.py''"] g e m fa rd
    by blast
  from 1 2 3 4 5 show ?thesis by (simp add: pt op)
qed

text \<open>
  Claim C7. A file request that names an unknown course key or an unknown exercise key
  ends with \<open>Http404\<close> and leaves everything as it was: no file is opened, and the outcome is
  the same whatever the files are. The store reports the unknown course key as \<open>None\<close>,
  and the lookup turns it into \<open>Http404\<close>.
\<close>

theorem unknown_key_not_found:
  assumes "get_config w course_key = None
           \<or> (\<exists>config. get_config w course_key = Some config
                 \<and> exercise_data config exercise_key
                      (map_option (take 2) (map_of (GET request) ''lang'')) = None)"
  shows "get_course_exercise_lang w course_key exercise_key (map_of (GET request) ''lang'')
           = (Inl (Http404 None), w)
       \<and> exercise_model w request course_key exercise_key parameter = (Inl (Http404 None), w)
       \<and> exercise_template w request course_key exercise_key parameter = (Inl (Http404 None), w)
       \<and> fst (exercise_model (w\<lparr>read_file := files\<rparr>) request course_key exercise_key parameter)
           = Inl (Http404 None)
       \<and> fst (exercise_template (w\<lparr>read_file := files\<rparr>) request course_key exercise_key parameter)
           = Inl (Http404 None)"
proof -
  have w': "get_config (w\<lparr>read_file := files\<rparr>) course_key = None
           \<or> (\<exists>config. get_config (w\<lparr>read_file := files\<rparr>) course_key = Some config
                 \<and> exercise_data config exercise_key
                      (map_option (take 2) (map_of (GET request) ''lang'')) = None)"
    using assms by simp
  show ?thesis
    unfolding exercise_model_def exercise_template_def
    by (simp add: serve_file_unknown [OF assms] serve_file_unknown [OF w']
          get_course_exercise_lang_unknown [OF assms])
qed

text \<open>
  Claim C7 on the small course: an unknown course, and an unknown exercise of a known
  course.
\<close>

theorem unknown_key_not_found_witness:
  "exercise_model demo_world (demo_request (Some ''en'')) ''nocourse'' ''ex1'' ''a.py''
     = (Inl (Http404 None), demo_world)
   \<and> exercise_template demo_world (demo_request (Some ''en'')) ''demo'' ''noexercise'' ''a.py''
     = (Inl (Http404 None), demo_world)"
proof -
  have g0: "get_config demo_world ''nocourse'' = None"
    by (simp add: demo_world_def)
  have e0: "\<exists>config. get_config demo_world ''demo'' = Some config
              \<and> exercise_data config ''noexercise''
                   (map_option (take 2) (map_of (GET (demo_request (Some ''en''))) ''lang'')) = None"
    by (simp add: demo_world_def demo_config_def)
  show ?thesis
    using unknown_key_not_found [OF disjI1 [OF g0], of "''ex1''" "demo_request (Some ''en'')"
            "''a.py''"]
      unknown_key_not_found [OF disjI2 [OF e0], of "''a.py''"]
    by blast
qed

section \<open>Properties of the full export\<close>

lemma modules_loop_map:
  "modules_loop X request config ms mods
     = mods @ map (\<lambda>m. setitem ''children''
                        (PList (map PDict (children_recursion X request config m)))
                        (model_dict {''children''} (node_fields m))) ms"
  by (induction ms arbitrary: mods) (simp_all add: Let_def)

lemma node_data_plain:
  "cls obj = Module \<Longrightarrow> node_data X request config obj = model_dict {''children''} (node_fields obj)"
  by (simp add: node_data_def)

lemma model_dict_course:
  "model_dict {''modules'', ''static_dir''} fs
     = filter (\<lambda>kv. fst kv \<noteq> ''modules'' \<and> fst kv \<noteq> ''static_dir'' \<and> snd kv \<noteq> PNone) fs"
  unfolding model_dict_def by (rule filter_cong) auto

lemma aplus_json_found:
  assumes "get_config w course_key = Some config"
  shows "aplus_json X w request course_key
           = (Inr (JsonResponse
                (setitem ''build_log_url''
                   (PStr (build_absolute_uri X request (reverse X ''build-log-json'' [course_key])))
                   (setitem ''modules''
                      (PList (map PDict
                         (map (\<lambda>m. setitem ''children''
                                     (PList (map PDict (children_recursion X request config m)))
                                     (model_dict {''children''} (node_fields m)))
                            (modules (data config)))))
                      (model_dict {''modules'', ''static_dir''} (course_fields (data config)))))),
              w)"
  using assms by (simp add: aplus_json_def Let_def modules_loop_map)

text \<open>
  Claim C6. For a course key that the store does not know the export ends with \<open>Http404\<close>.
  For a known one it answers with one JSON object. Its \<open>build_log_url\<close> is built from the
  request and the course key. Its \<open>modules\<close> is the list with one object per module, in
  order: the module's fields without \<open>children\<close> and without \<open>None\<close> values, and the export of
  its children. When the modules are of class \<open>Module\<close> this is what the rules for
  children give for a parent with those modules. It has no \<open>static_dir\<close>, and every other
  key has the value of the course's field of that name, the fields with value \<open>None\<close> left
  out.
\<close>

theorem aplus_json_document:
  "(get_config w course_key = None \<longrightarrow>
      aplus_json X w request course_key = (Inl (Http404 None), w))
   \<and> (\<forall>config. get_config w course_key = Some config \<longrightarrow>
        (\<exists>d. aplus_json X w request course_key = (Inr (JsonResponse d), w)
           \<and> map_of d ''build_log_url''
               = Some (PStr (build_absolute_uri X request
                               (reverse X ''build-log-json'' [course_key])))
           \<and> map_of d ''modules''
               = Some (PList (map PDict
                   (map (\<lambda>m. setitem ''children''
                               (PList (map PDict (children_recursion X request config m)))
                               (filter (\<lambda>kv. fst kv \<noteq> ''children'' \<and> snd kv \<noteq> PNone)
                                  (node_fields m)))
                      (modules (data config)))))
           \<and> ((\<forall>m\<in>set (modules (data config)). cls m = Module) \<longrightarrow>
                map_of d ''modules''
                  = Some (PList (map PDict
                      (children_recursion X request config
                         (Node Module [] (modules (data config)))))))
           \<and> map_of d ''static_dir'' = None
           \<and> (\<forall>k. k \<noteq> ''modules'' \<and> k \<noteq> ''build_log_url'' \<longrightarrow>
                map_of d k
                  = map_of (filter (\<lambda>kv. fst kv \<noteq> ''modules'' \<and> fst kv \<noteq> ''static_dir''
                                          \<and> snd kv \<noteq> PNone)
                              (course_fields (data config))) k)))"
proof (intro conjI allI impI)
  assume "get_config w course_key = None"
  then show "aplus_json X w request course_key = (Inl (Http404 None), w)"
    by (simp add: aplus_json_def)
next
  fix config
  assume g: "get_config w course_key = Some config"
  let ?mods = "map (\<lambda>m. setitem ''children''
                         (PList (map PDict (children_recursion X request config m)))
                         (model_dict {''children''} (node_fields m)))
                 (modules (data config))"
  let ?base = "model_dict {''modules'', ''static_dir''} (course_fields (data config))"
  let ?d = "setitem ''build_log_url''
              (PStr (build_absolute_uri X request (reverse X ''build-log-json'' [course_key])))
              (setitem ''modules'' (PList (map PDict ?mods)) ?base)"
  have r: "aplus_json X w request course_key = (Inr (JsonResponse ?d), w)"
    by (rule aplus_json_found [OF g])
  have b: "map_of ?d ''build_log_url''
             = Some (PStr (build_absolute_uri X request (reverse X ''build-log-json'' [course_key])))"
    by (rule map_of_setitem)
  have m: "map_of ?d ''modules'' = Some (PList (map PDict ?mods))"
    by (simp add: map_of_setitem map_of_setitem_other)
  have m': "map_of ?d ''modules''
               = Some (PList (map PDict
                   (map (\<lambda>m. setitem ''children''
                               (PList (map PDict (children_recursion X request config m)))
                               (filter (\<lambda>kv. fst kv \<noteq> ''children'' \<and> snd kv \<noteq> PNone)
                                  (node_fields m)))
                      (modules (data config)))))"
    using m by (simp only: model_dict_filter)
  have c: "(\<forall>m\<in>set (modules (data config)). cls m = Module) \<longrightarrow>
             map_of ?d ''modules''
               = Some (PList (map PDict
                   (children_recursion X request config
                      (Node Module [] (modules (data config))))))"
  proof
    assume a: "\<forall>m\<in>set (modules (data config)). cls m = Module"
    have "children_recursion X request config (Node Module [] (modules (data config))) = ?mods"
      by (subst children_recursion_map) (simp add: a node_data_plain)
    with m show "map_of ?d ''modules''
               = Some (PList (map PDict
                   (children_recursion X request config
                      (Node Module [] (modules (data config))))))"
      by simp
  qed
  have o: "\<forall>k. k \<noteq> ''modules'' \<and> k \<noteq> ''build_log_url'' \<longrightarrow>
             map_of ?d k
               = map_of (filter (\<lambda>kv. fst kv \<noteq> ''modules'' \<and> fst kv \<noteq> ''static_dir''
                                       \<and> snd kv \<noteq> PNone)
                           (course_fields (data config))) k"
    by (simp add: map_of_setitem_other model_dict_course)
  have "''static_dir'' \<notin> fst ` set ?base"
    by (rule model_dict_keys) simp
  then have "map_of ?base ''static_dir'' = None"
    by (simp add: map_of_eq_None_iff)
  then have s: "map_of ?d ''static_dir'' = None"
    by (simp add: map_of_setitem_other)
  from r b m' c s o
  show "\<exists>d. aplus_json X w request course_key = (Inr (JsonResponse d), w)
           \<and> map_of d ''build_log_url''
               = Some (PStr (build_absolute_uri X request
                               (reverse X ''build-log-json'' [course_key])))
           \<and> map_of d ''modules''
               = Some (PList (map PDict
                   (map (\<lambda>m. setitem ''children''
                               (PList (map PDict (children_recursion X request config m)))
                               (filter (\<lambda>kv. fst kv \<noteq> ''children'' \<and> snd kv \<noteq> PNone)
                                  (node_fields m)))
                      (modules (data config)))))
           \<and> ((\<forall>m\<in>set (modules (data config)). cls m = Module) \<longrightarrow>
                map_of d ''modules''
                  = Some (PList (map PDict
                      (children_recursion X request config
                         (Node Module [] (modules (data config)))))))
           \<and> map_of d ''static_dir'' = None
           \<and> (\<forall>k. k \<noteq> ''modules'' \<and> k \<noteq> ''build_log_url'' \<longrightarrow>
                map_of d k
                  = map_of (filter (\<lambda>kv. fst kv \<noteq> ''modules'' \<and> fst kv \<noteq> ''static_dir''
                                          \<and> snd kv \<noteq> PNone)
                              (course_fields (data config))) k)"
    by blast
qed

text \<open>
  Claim C6 on the small course: an unknown key, and the document for \<open>demo\<close>.
\<close>

theorem aplus_json_document_witness:
  "aplus_json demo_externals demo_world (demo_request None) ''nocourse''
     = (Inl (Http404 None), demo_world)
   \<and> (\<exists>d. aplus_json demo_externals demo_world (demo_request None) ''demo''
            = (Inr (JsonResponse d), demo_world)
         \<and> map_of d ''build_log_url'' = Some (PStr ''https://x/demo/build-log-json'')
         \<and> map_of d ''name'' = Some (PStr ''Demo'')
         \<and> map_of d ''contact'' = None
         \<and> map_of d ''static_dir'' = None
         \<and> map_of d ''modules''
             = Some (PList [PDict [(''key'', PStr ''M1''),
                  (''children'', PList
                     [PDict [(''key'', PStr ''ex1''), (''children'', PList [])],
                      PDict [(''key'', PStr ''ex2''), (''config'', PStr ''ex2.yaml''),
                             (''exercise'', demo_ex2_root), (''children'', PList [])],
                      PDict [(''key'', PStr ''ch1''),
                             (''static_content'', PStr ''https://x/static''),
                             (''children'', PList
                                [PDict [(''key'', PStr ''i1''),
                                        (''children'', PList [])]])]])]]))"
proof -
  let ?r = "demo_request None"
  have g0: "get_config demo_world ''nocourse'' = None"
    and g: "get_config demo_world ''demo'' = Some demo_config"
    by (simp_all add: demo_world_def)
  have ms: "modules (data demo_config) = [demo_module]"
    and cf: "course_fields (data demo_config)
               = [(''name'', PStr ''Demo''), (''static_dir'', PStr ''static''), (''contact'', PNone)]"
    by (simp_all add: demo_config_def)
  have mod: "\<forall>m\<in>set (modules (data demo_config)). cls m = Module"
    by (simp add: ms demo_module_def)
  have url: "build_absolute_uri demo_externals ?r (reverse demo_externals ''build-log-json'' [''demo''])
               = ''https://x/demo/build-log-json''"
    by (simp add: demo_externals_def demo_request_def)
  have ex: "children_recursion demo_externals ?r demo_config (Node Module [] [demo_module])
      = [[(''key'', PStr ''M1''),
          (''children'', PList
             [PDict [(''key'', PStr ''ex1''), (''children'', PList [])],
              PDict [(''key'', PStr ''ex2''), (''config'', PStr ''ex2.yaml''),
                     (''exercise'', demo_ex2_root), (''children'', PList [])],
              PDict [(''key'', PStr ''ch1''),
                     (''static_content'', PStr ''https://x/static''),
                     (''children'', PList
                        [PDict [(''key'', PStr ''i1''), (''children'', PList [])]])]])]]"
    by (simp add: demo_module_def demo_ex1_def demo_ex2_def demo_chapter_def demo_item_def
          node_data_def attr_def model_dict_def setitem_def demo_externals_def demo_config_def
          demo_request_def)
  have 1: "aplus_json demo_externals demo_world ?r ''nocourse'' = (Inl (Http404 None), demo_world)"
    by (rule aplus_json_document [of demo_world "''nocourse''" demo_externals ?r,
          THEN conjunct1, THEN mp, OF g0])
  note doc = aplus_json_document [of demo_world "''demo''" demo_externals ?r,
      THEN conjunct2, THEN spec, THEN mp, OF g]
  from doc obtain d where d: "aplus_json demo_externals demo_world ?r ''demo''
                       = (Inr (JsonResponse d), demo_world)"
    and b: "map_of d ''build_log_url''
              = Some (PStr (build_absolute_uri demo_externals ?r
                              (reverse demo_externals ''build-log-json'' [''demo''])))"
    and m0: "(\<forall>m\<in>set (modules (data demo_config)). cls m = Module) \<longrightarrow>
             map_of d ''modules''
              = Some (PList (map PDict
                  (children_recursion demo_externals ?r demo_config
                     (Node Module [] (modules (data demo_config))))))"
    and s: "map_of d ''static_dir'' = None"
    and o: "\<forall>k. k \<noteq> ''modules'' \<and> k \<noteq> ''build_log_url'' \<longrightarrow>
              map_of d k
                = map_of (filter (\<lambda>kv. fst kv \<noteq> ''modules'' \<and> fst kv \<noteq> ''static_dir''
                                        \<and> snd kv \<noteq> PNone)
                            (course_fields (data demo_config))) k"
    by (elim exE conjE) (rule that)
  from m0 mod have m: "map_of d ''modules''
              = Some (PList (map PDict
                  (children_recursion demo_externals ?r demo_config
                     (Node Module [] (modules (data demo_config))))))"
    by (rule mp)
  from o have n: "map_of d ''name'' = Some (PStr ''Demo'')"
    and c: "map_of d ''contact'' = None"
    by (simp_all add: cf)
  from m have m': "map_of d ''modules''
      = Some (PList [PDict [(''key'', PStr ''M1''),
          (''children'', PList
             [PDict [(''key'', PStr ''ex1''), (''children'', PList [])],
              PDict [(''key'', PStr ''ex2''), (''config'', PStr ''ex2.yaml''),
                     (''exercise'', demo_ex2_root), (''children'', PList [])],
              PDict [(''key'', PStr ''ch1''),
                     (''static_content'', PStr ''https://x/static''),
                     (''children'', PList
                        [PDict [(''key'', PStr ''i1''), (''children'', PList [])]])]])]])"
    by (simp only: ms ex list.map)
  from b have b': "map_of d ''build_log_url'' = Some (PStr ''https://x/demo/build-log-json'')"
    by (simp only: url)
  from d b' n c s m' have all: "aplus_json demo_externals demo_world (demo_request None) ''demo''
            = (Inr (JsonResponse d), demo_world)
         \<and> map_of d ''build_log_url'' = Some (PStr ''https://x/demo/build-log-json'')
         \<and> map_of d ''name'' = Some (PStr ''Demo'')
         \<and> map_of d ''contact'' = None
         \<and> map_of d ''static_dir'' = None
         \<and> map_of d ''modules''
             = Some (PList [PDict [(''key'', PStr ''M1''),
                  (''children'', PList
                     [PDict [(''key'', PStr ''ex1''), (''children'', PList [])],
                      PDict [(''key'', PStr ''ex2''), (''config'', PStr ''ex2.yaml''),
                             (''exercise'', demo_ex2_root), (''children'', PList [])],
                      PDict [(''key'', PStr ''ch1''),
                             (''static_content'', PStr ''https://x/static''),
                             (''children'', PList
                                [PDict [(''key'', PStr ''i1''),
                                        (''children'', PList [])]])]])]])"
    by (intro conjI)
  show ?thesis
    by (rule conjI, rule 1, rule exI [of _ d], rule all)
qed

section \<open>The frame of the export on the heap\<close>

lemma unchanged_below_refl: "unchanged_below n h h"
  by (simp add: unchanged_below_def)

lemma unchanged_below_trans:
  assumes "unchanged_below n h h'" and "unchanged_below n h' h''"
  shows "unchanged_below n h h''"
proof -
  from assms have "length h \<le> length h''"
    by (simp add: unchanged_below_def)
  moreover have "h'' ! a = h ! a" if "a < n" for a
  proof -
    from assms(2) that have "h'' ! a = h' ! a" by (simp add: unchanged_below_def)
    also from assms(1) that have "h' ! a = h ! a" by (simp add: unchanged_below_def)
    finally show ?thesis .
  qed
  ultimately show ?thesis by (simp add: unchanged_below_def)
qed

lemma alloc_frame:
  assumes "alloc c h = (a, h')" and "n \<le> length h"
  shows "unchanged_below n h h' \<and> n \<le> a \<and> a < length h'"
proof -
  from assms(1) have a: "a = length h" and h': "h' = h @ [c]"
    by (simp_all add: alloc_def)
  show ?thesis
    unfolding a h' unchanged_below_def using assms(2) by (simp add: nth_append)
qed

lemma dict_h_frame:
  assumes "dict_h exclude x h = (a, h')" and "n \<le> length h"
  shows "unchanged_below n h h' \<and> n \<le> a \<and> a < length h'"
  using assms unfolding dict_h_def by (rule alloc_frame)

lemma update_frame: "n \<le> d \<Longrightarrow> unchanged_below n h (h[d := c])"
  by (simp add: unchanged_below_def)

lemma setitem_h_frame: "n \<le> d \<Longrightarrow> unchanged_below n h (setitem_h d k v h)"
  by (cases "cell_at h d") (simp_all add: setitem_h_def update_frame unchanged_below_refl)

lemma append_h_frame: "n \<le> l \<Longrightarrow> unchanged_below n h (append_h l x h)"
  by (cases "cell_at h l") (simp_all add: append_h_def update_frame unchanged_below_refl)

lemma writes_only_new_frame:
  assumes "writes_only_new f" and "f ofd h = (d, h')" and "n \<le> ofd" and "ofd < length h"
  shows "unchanged_below n h h' \<and> n \<le> d"
proof -
  note assms(1) [unfolded writes_only_new_def, THEN spec, THEN spec, THEN mp, OF assms(4)]
  then have l: "length h \<le> length h'" and d: "d = ofd \<or> length h \<le> d"
    and u: "\<forall>a<length h. a \<noteq> ofd \<longrightarrow> h' ! a = h ! a"
    unfolding assms(2) by simp_all
  have "h' ! a = h ! a" if "a < n" for a
  proof -
    from that assms(3,4) have "a < length h" and "a \<noteq> ofd" by simp_all
    with u show ?thesis by simp
  qed
  moreover from d assms(3,4) have "n \<le> d" by auto
  ultimately show ?thesis using l by (simp add: unchanged_below_def)
qed

lemma unchanged_below_length: "unchanged_below n h h' \<Longrightarrow> n \<le> length h \<Longrightarrow> n \<le> length h'"
  by (simp add: unchanged_below_def)

lemma children_h_frame:
  "transforms_write_only_new X \<Longrightarrow> n \<le> length h \<Longrightarrow>
           unchanged_below n h (snd (children_recursion_h X request config nd h))
           \<and> n \<le> fst (children_recursion_h X request config nd h)"
  "transforms_write_only_new X \<Longrightarrow> n \<le> length h \<Longrightarrow> n \<le> result \<Longrightarrow>
           unchanged_below n h (children_loop_h X request config objs result h)"
proof (induction X request config nd h and X request config objs result h
        rule: children_recursion_h_children_loop_h.induct)
  case (1 X request config a c kids h)
  obtain result h1 where A: "alloc (Lst []) h = (result, h1)"
    by (rule prod.exhaust)
  from alloc_frame [OF A "1.prems"(2)]
  have u1: "unchanged_below n h h1" and r: "n \<le> result"
    by simp_all
  from u1 "1.prems"(2) have l1: "n \<le> length h1"
    by (rule unchanged_below_length)
  from "1.IH" [OF A [symmetric] "1.prems"(1) l1 r]
  have "unchanged_below n h1 (children_loop_h X request config kids result h1)" .
  with u1 have "unchanged_below n h (children_loop_h X request config kids result h1)"
    by (rule unchanged_below_trans)
  with r show ?case by (simp add: A)
next
  case (2 X request config result h)
  then show ?case by (simp add: unchanged_below_refl)
next
  case (3 X request config obj objs result h)
  note X = "3.prems"(1)
  obtain ofd h1 where D: "dict_h {''children''} (haddr obj) h = (ofd, h1)"
    by (rule prod.exhaust)
  from dict_h_frame [OF D "3.prems"(2)]
  have u1: "unchanged_below n h h1" and o1: "n \<le> ofd" and o2: "ofd < length h1"
    by simp_all
  from u1 "3.prems"(2) have l1: "n \<le> length h1"
    by (rule unchanged_below_length)
  obtain data' h2 where
    T: "(if hcls obj = Exercise \<and> truthy_h (attr_h h1 (haddr obj) ''config'') then
           hexport_exercise X request config
             (hexercise_config X h1 config (attr_h h1 (haddr obj) ''key'')) ofd h1
         else if hcls obj = Chapter then hexport_chapter X request config ofd h1
         else (ofd, h1)) = (data', h2)"
    by (rule prod.exhaust)
  have u2: "unchanged_below n h1 h2 \<and> n \<le> data'"
  proof (cases "hcls obj = Exercise \<and> truthy_h (attr_h h1 (haddr obj) ''config'')")
    case True
    from T have E: "hexport_exercise X request config
             (hexercise_config X h1 config (attr_h h1 (haddr obj) ''key'')) ofd h1 = (data', h2)"
      unfolding if_P [OF True] .
    from X have W: "writes_only_new (hexport_exercise X request config
             (hexercise_config X h1 config (attr_h h1 (haddr obj) ''key'')))"
      by (simp add: transforms_write_only_new_def)
    from W E o1 o2 show ?thesis by (rule writes_only_new_frame)
  next
    case False
    show ?thesis
    proof (cases "hcls obj = Chapter")
      case True
      from T have E: "hexport_chapter X request config ofd h1 = (data', h2)"
        unfolding if_not_P [OF False] if_P [OF True] .
      from X have W: "writes_only_new (hexport_chapter X request config)"
        by (simp add: transforms_write_only_new_def)
      from W E o1 o2 show ?thesis by (rule writes_only_new_frame)
    next
      case no: False
      from T have "(ofd, h1) = (data', h2)"
        unfolding if_not_P [OF False] if_not_P [OF no] .
      then have "data' = ofd" and "h2 = h1" by simp_all
      with o1 show ?thesis by (simp add: unchanged_below_refl)
    qed
  qed
  then have l2: "n \<le> length h2" using l1 by (auto dest: unchanged_below_length)
  obtain sub h3 where R: "children_recursion_h X request config obj h2 = (sub, h3)"
    by (rule prod.exhaust)
  from "3.IH"(1) [OF D [symmetric] T [symmetric] X l2] R
  have u3: "unchanged_below n h2 h3"
    by simp
  then have l3: "n \<le> length h3" using l2 by (rule unchanged_below_length)
  let ?h4 = "setitem_h data' ''children'' (Ref sub) h3"
  let ?h5 = "append_h result data' ?h4"
  from u2 have u4: "unchanged_below n h3 ?h4"
    by (simp add: setitem_h_frame)
  from "3.prems"(3) have u5: "unchanged_below n ?h4 ?h5"
    by (rule append_h_frame)
  from u4 u5 have u45: "unchanged_below n h3 ?h5"
    by (rule unchanged_below_trans)
  then have l5: "n \<le> length ?h5" using l3 by (rule unchanged_below_length)
  from "3.IH"(2) [OF D [symmetric] T [symmetric] R [symmetric] X l5 "3.prems"(3)]
  have u6: "unchanged_below n ?h5 (children_loop_h X request config objs result ?h5)" .
  have eq: "children_loop_h X request config (obj # objs) result h
              = children_loop_h X request config objs result ?h5"
    by (subst children_loop_h.simps) (simp only: D T R prod.case)
  from u2 have "unchanged_below n h1 h2" by simp
  with u1 have "unchanged_below n h h2" by (rule unchanged_below_trans)
  then have "unchanged_below n h h3" using u3 by (rule unchanged_below_trans)
  then have "unchanged_below n h ?h5" using u45 by (rule unchanged_below_trans)
  then have "unchanged_below n h (children_loop_h X request config objs result ?h5)"
    using u6 by (rule unchanged_below_trans)
  then show ?case by (simp only: eq)
qed

lemma modules_loop_h_frame:
  "transforms_write_only_new X \<Longrightarrow> n \<le> length h \<Longrightarrow> n \<le> mods \<Longrightarrow>
     unchanged_below n h (modules_loop_h X request config ms mods h)"
proof (induction ms arbitrary: h)
  case Nil
  then show ?case by (simp add: unchanged_below_refl)
next
  case (Cons m ms)
  obtain mf h1 where D: "dict_h {''children''} (haddr m) h = (mf, h1)"
    by (rule prod.exhaust)
  from dict_h_frame [OF D Cons.prems(2)]
  have u1: "unchanged_below n h h1" and m1: "n \<le> mf"
    by simp_all
  from u1 Cons.prems(2) have l1: "n \<le> length h1"
    by (rule unchanged_below_length)
  obtain sub h2 where R: "children_recursion_h X request config m h1 = (sub, h2)"
    by (rule prod.exhaust)
  from children_h_frame(1) [OF Cons.prems(1) l1, of request config m] R
  have u2: "unchanged_below n h1 h2"
    by simp
  then have l2: "n \<le> length h2" using l1 by (rule unchanged_below_length)
  let ?h3 = "setitem_h mf ''children'' (Ref sub) h2"
  let ?h4 = "append_h mods mf ?h3"
  from m1 have u3: "unchanged_below n h2 ?h3"
    by (rule setitem_h_frame)
  from Cons.prems(3) have u4: "unchanged_below n ?h3 ?h4"
    by (rule append_h_frame)
  from u1 u2 have "unchanged_below n h h2" by (rule unchanged_below_trans)
  then have "unchanged_below n h ?h3" using u3 by (rule unchanged_below_trans)
  then have u5: "unchanged_below n h ?h4" using u4 by (rule unchanged_below_trans)
  then have l4: "n \<le> length ?h4" using Cons.prems(2) by (rule unchanged_below_length)
  from Cons.IH [OF Cons.prems(1) l4 Cons.prems(3)]
  have "unchanged_below n ?h4 (modules_loop_h X request config ms mods ?h4)" .
  with u5 have "unchanged_below n h (modules_loop_h X request config ms mods ?h4)"
    by (rule unchanged_below_trans)
  moreover have "modules_loop_h X request config (m # ms) mods h
                   = modules_loop_h X request config ms mods ?h4"
    by (simp add: D R)
  ultimately show ?case by simp
qed

lemma aplus_json_h_frame:
  assumes X: "transforms_write_only_new X"
  shows "unchanged_below (length h) h (snd (aplus_json_h X get request course_key h))"
proof (cases "get course_key")
  case None
  then show ?thesis by (simp add: aplus_json_h_def unchanged_below_refl)
next
  case (Some config)
  let ?n = "length h"
  obtain data' h1 where D: "dict_h {''modules'', ''static_dir''} (data_addr config) h = (data', h1)"
    by (rule prod.exhaust)
  from dict_h_frame [OF D le_refl]
  have u1: "unchanged_below ?n h h1" and d1: "?n \<le> data'"
    by simp_all
  from u1 have l1: "?n \<le> length h1"
    by (simp add: unchanged_below_def)
  obtain mods h2 where A: "alloc (Lst []) h1 = (mods, h2)"
    by (rule prod.exhaust)
  from alloc_frame [OF A l1]
  have u2: "unchanged_below ?n h1 h2" and m2: "?n \<le> mods"
    by simp_all
  from u2 l1 have l2: "?n \<le> length h2"
    by (rule unchanged_below_length)
  let ?h3 = "modules_loop_h X request config (hmodules config) mods h2"
  let ?h4 = "setitem_h data' ''modules'' (Ref mods) ?h3"
  let ?h5 = "setitem_h data' ''build_log_url''
               (Val (PStr (hbuild_log_url X request course_key))) ?h4"
  from modules_loop_h_frame [OF X l2 m2]
  have u3: "unchanged_below ?n h2 ?h3" .
  from d1 have u4: "unchanged_below ?n ?h3 ?h4"
    by (rule setitem_h_frame)
  from d1 have u5: "unchanged_below ?n ?h4 ?h5"
    by (rule setitem_h_frame)
  from u1 u2 have "unchanged_below ?n h h2" by (rule unchanged_below_trans)
  then have "unchanged_below ?n h ?h3" using u3 by (rule unchanged_below_trans)
  then have "unchanged_below ?n h ?h4" using u4 by (rule unchanged_below_trans)
  then have "unchanged_below ?n h ?h5" using u5 by (rule unchanged_below_trans)
  moreover have "snd (aplus_json_h X get request course_key h) = ?h5"
    by (simp add: aplus_json_h_def Some D A Let_def)
  ultimately show ?thesis by simp
qed

lemma unchanged_below_take:
  assumes "unchanged_below (length h) h h'"
  shows "take (length h) h' = h"
proof (rule nth_equalityI)
  from assms show "length (take (length h) h') = length h"
    by (simp add: unchanged_below_def)
next
  fix i
  assume "i < length (take (length h) h')"
  with assms show "take (length h) h' ! i = h ! i"
    by (simp add: unchanged_below_def)
qed

lemma setitem_h_length: "length (setitem_h d k v h) = length h"
  by (cases "cell_at h d") (simp_all add: setitem_h_def)

lemma setitem_h_other: "a \<noteq> d \<Longrightarrow> setitem_h d k v h ! a = h ! a"
  by (cases "cell_at h d") (simp_all add: setitem_h_def)

lemma demo_hexternals_contract: "transforms_write_only_new demo_hexternals"
  unfolding transforms_write_only_new_def writes_only_new_def demo_hexternals_def
  by (simp add: setitem_h_length setitem_h_other alloc_def nth_append)

lemma world_unchanged:
  "get_config (snd (index w request)) = get_config w"
  "all_configs (snd (index w request)) = all_configs w"
  "get_config (snd (course X w request course_key)) = get_config w"
  "all_configs (snd (course X w request course_key)) = all_configs w"
  "get_config (snd (aplus_json X w request course_key)) = get_config w"
  "all_configs (snd (aplus_json X w request course_key)) = all_configs w"
  "get_config (snd (serve_file fk msg w request course_key exercise_key parameter)) = get_config w"
  "all_configs (snd (serve_file fk msg w request course_key exercise_key parameter)) = all_configs w"
  by (simp_all add: index_def course_def aplus_json_def serve_file_def
        get_course_exercise_lang_def Let_def
        split: option.split sum.split file_result.split)

text \<open>
  The condition on the transforms is needed: when the chapter transform returns the
  chapter node itself, the assignment to \<open>data["children"]\<close> changes that node.
\<close>

lemma alias_changes_node:
  "snd (children_recursion_h alias_hexternals (demo_request None) demo_hconfig
          (HNode 0 Module [HNode 1 Chapter []]) alias_heap) ! 1
     = Dict [(''key'', Val (PStr ''ch1'')), (''children'', Ref 4)]
   \<and> alias_heap ! 1 = Dict [(''key'', Val (PStr ''ch1''))]"
  by (simp add: alias_hexternals_def alias_heap_def alloc_def dict_h_def setitem_h_def
        append_h_def cell_at_def items_at_def)

text \<open>
  Claim C9. No view changes the cached configurations: the course listing, the exercise
  listing, the full export and the two file views return the world with the same
  \<open>CourseConfig.get\<close> and \<open>CourseConfig.all()\<close> as they found. On the heap, where the export
  makes its dictionaries and lists and writes to them, every object that existed before
  the export, the nodes of the configuration among them, is the same after it: the
  export writes only to objects made during the request, provided the two transforms of
  \<open>util.export\<close> do so as well.
\<close>

theorem views_leave_configuration_unchanged:
  assumes "transforms_write_only_new HX"
  shows "get_config (snd (index w request)) = get_config w
       \<and> all_configs (snd (index w request)) = all_configs w
       \<and> get_config (snd (course X w request course_key)) = get_config w
       \<and> all_configs (snd (course X w request course_key)) = all_configs w
       \<and> get_config (snd (aplus_json X w request course_key)) = get_config w
       \<and> all_configs (snd (aplus_json X w request course_key)) = all_configs w
       \<and> get_config (snd (exercise_model w request course_key exercise_key parameter))
           = get_config w
       \<and> all_configs (snd (exercise_model w request course_key exercise_key parameter))
           = all_configs w
       \<and> get_config (snd (exercise_template w request course_key exercise_key parameter))
           = get_config w
       \<and> all_configs (snd (exercise_template w request course_key exercise_key parameter))
           = all_configs w
       \<and> take (length h) (snd (aplus_json_h HX get request course_key h)) = h"
proof -
  have "take (length h) (snd (aplus_json_h HX get request course_key h)) = h"
    by (rule unchanged_below_take [OF aplus_json_h_frame [OF assms]])
  then show ?thesis
    unfolding exercise_model_def exercise_template_def
    by (simp only: world_unchanged simp_thms)
qed

text \<open>
  Claim C9 on the small course: the collaborators of the small course keep to the
  condition, and the six cells of the heap are the same after the export.
\<close>

theorem views_leave_configuration_unchanged_witness:
  "transforms_write_only_new demo_hexternals
   \<and> take (length demo_heap)
       (snd (aplus_json_h demo_hexternals demo_get (demo_request None) ''demo'' demo_heap))
     = demo_heap
   \<and> get_config (snd (exercise_model demo_world (demo_request None) ''demo'' ''ex1'' ''a.py''))
     = get_config demo_world"
  using views_leave_configuration_unchanged [OF demo_hexternals_contract,
      of demo_world "demo_request None" _ "''demo''" "''ex1''" "''a.py''" demo_heap demo_get]
    demo_hexternals_contract
  by simp

section \<open>Two exports in a row\<close>

lemma relocate_length: "n \<le> length h \<Longrightarrow> length (relocate n J h) = length h + length J"
  by (simp add: relocate_def)

lemma relocate_nth_old: "a < n \<Longrightarrow> n \<le> length h \<Longrightarrow> relocate n J h ! a = h ! a"
  by (simp add: relocate_def nth_append)

lemma relocate_nth_new:
  assumes "n \<le> a" and "a < length h"
  shows "relocate n J h ! (a + length J) = reloc_cell n (length J) (h ! a)"
proof -
  let ?f = "reloc_cell n (length J)"
  from assms have len: "length (take n h) = n" by simp
  from assms have i: "a + length J = length (take n h) + (length J + (a - n))"
    by (simp add: len)
  have "relocate n J h ! (a + length J) = (J @ map ?f (drop n h)) ! (length J + (a - n))"
    unfolding relocate_def i by (rule nth_append_length_plus)
  also have "\<dots> = map ?f (drop n h) ! (a - n)"
    by (rule nth_append_length_plus)
  also from assms have "\<dots> = ?f (h ! a)"
    by simp
  finally show ?thesis .
qed

lemma reloc_addr_old: "a < n \<Longrightarrow> reloc_addr n k a = a"
  by (simp add: reloc_addr_def)

lemma reloc_addr_new: "n \<le> a \<Longrightarrow> reloc_addr n k a = a + k"
  by (simp add: reloc_addr_def)

lemma cell_at_relocate_new:
  assumes "n \<le> a" and "n \<le> length h"
  shows "cell_at (relocate n J h) (a + length J) = reloc_cell n (length J) (cell_at h a)"
proof (cases "a < length h")
  case True
  with assms show ?thesis
    by (simp add: cell_at_def relocate_length relocate_nth_new)
next
  case False
  with assms show ?thesis
    by (simp add: cell_at_def relocate_length)
qed

lemma cell_at_relocate_old:
  assumes "a < n" and "n \<le> length h" and "closed_below n h"
  shows "cell_at (relocate n J h) a = reloc_cell n (length J) (cell_at h a)"
proof -
  from assms(1,2) have a: "a < length h" by simp
  with assms(1,3) have "reloc_cell n (length J) (h ! a) = h ! a"
    by (simp add: closed_below_def)
  with assms(1,2) a show ?thesis
    by (simp add: cell_at_def relocate_length relocate_nth_old)
qed

lemma cell_at_relocate:
  assumes "n \<le> length h" and "closed_below n h"
  shows "cell_at (relocate n J h) (reloc_addr n (length J) a)
           = reloc_cell n (length J) (cell_at h a)"
proof (cases "a < n")
  case True
  with assms show ?thesis by (simp add: reloc_addr_old cell_at_relocate_old)
next
  case False
  with assms show ?thesis by (simp add: reloc_addr_new cell_at_relocate_new)
qed

lemma items_at_reloc:
  "cell_at h' a' = reloc_cell n k (cell_at h a) \<Longrightarrow>
   items_at h' a' = map (\<lambda>(key, v). (key, reloc_val n k v)) (items_at h a)"
  by (cases "cell_at h a") (simp_all add: items_at_def)

lemma attr_h_reloc:
  assumes "cell_at h' a' = reloc_cell n k (cell_at h a)"
  shows "attr_h h' a' fld = reloc_val n k (attr_h h a fld)"
proof -
  have "map_of (map (\<lambda>(key, v). (key, reloc_val n k v)) (items_at h a)) fld
          = map_option (reloc_val n k) (map_of (items_at h a) fld)"
    by (simp add: map_of_map)
  then show ?thesis
    unfolding attr_h_def items_at_reloc [OF assms]
    by (cases "map_of (items_at h a) fld") simp_all
qed

lemma truthy_h_reloc: "truthy_h (reloc_val n k v) = truthy_h v"
  by (cases v) simp_all

lemma reloc_val_None: "(reloc_val n k v = Val PNone) = (v = Val PNone)"
  by (cases v) simp_all

lemma filter_reloc:
  "filter (\<lambda>(key, v). key \<notin> ex \<and> v \<noteq> Val PNone) (map (\<lambda>(key, v). (key, reloc_val n k v)) kvs)
     = map (\<lambda>(key, v). (key, reloc_val n k v))
         (filter (\<lambda>(key, v). key \<notin> ex \<and> v \<noteq> Val PNone) kvs)"
  by (induction kvs) (auto simp: reloc_val_None)

lemma update_reloc:
  "AList.update fld (reloc_val n k v) (map (\<lambda>(key, v). (key, reloc_val n k v)) kvs)
     = map (\<lambda>(key, v). (key, reloc_val n k v)) (AList.update fld v kvs)"
  by (induction kvs) auto

lemma relocate_snoc:
  "n \<le> length h \<Longrightarrow> relocate n J (h @ [c]) = relocate n J h @ [reloc_cell n (length J) c]"
  by (simp add: relocate_def)

lemma alloc_relocate:
  assumes "n \<le> length h"
  shows "alloc (reloc_cell n (length J) c) (relocate n J h)
           = (reloc_addr n (length J) (fst (alloc c h)), relocate n J (snd (alloc c h)))"
  using assms by (simp add: alloc_def relocate_length relocate_snoc reloc_addr_new)

lemma update_append_plus: "(xs @ ys)[length xs + i := c] = xs @ ys[i := c]"
  by (simp add: list_update_append)

lemma relocate_update:
  assumes "n \<le> d" and "n \<le> length h"
  shows "relocate n J (h[d := c]) = (relocate n J h)[d + length J := reloc_cell n (length J) c]"
proof -
  let ?f = "reloc_cell n (length J)"
  have t: "take n (h[d := c]) = take n h"
    using assms(1) by simp
  have dr: "drop n (h[d := c]) = (drop n h)[d - n := c]"
    using assms(1) by (simp add: drop_update_swap)
  from assms have len: "length (take n h) = n" by simp
  from assms have i: "d + length J = length (take n h) + (length J + (d - n))"
    by (simp add: len)
  have "(take n h @ J @ map ?f (drop n h))[d + length J := ?f c]
          = take n h @ (J @ map ?f (drop n h))[length J + (d - n) := ?f c]"
    unfolding i by (rule update_append_plus)
  also have "\<dots> = take n h @ J @ (map ?f (drop n h))[d - n := ?f c]"
    by (simp only: update_append_plus)
  also have "\<dots> = take n h @ J @ map ?f ((drop n h)[d - n := c])"
    by (simp only: map_update)
  finally show ?thesis
    unfolding relocate_def t dr by (rule sym)
qed

lemma dict_h_relocate:
  assumes "n \<le> length h" and "closed_below n h"
  shows "dict_h ex (reloc_addr n (length J) a) (relocate n J h)
           = (reloc_addr n (length J) (fst (dict_h ex a h)), relocate n J (snd (dict_h ex a h)))"
proof -
  have i: "items_at (relocate n J h) (reloc_addr n (length J) a)
             = map (\<lambda>(key, v). (key, reloc_val n (length J) v)) (items_at h a)"
    by (rule items_at_reloc [OF cell_at_relocate [OF assms]])
  show ?thesis
    unfolding dict_h_def i filter_reloc
    using alloc_relocate [OF assms(1), of J
        "Dict (filter (\<lambda>(key, v). key \<notin> ex \<and> v \<noteq> Val PNone) (items_at h a))"]
    by simp
qed

lemma setitem_h_relocate:
  assumes "n \<le> d" and "n \<le> length h"
  shows "setitem_h (d + length J) fld (reloc_val n (length J) v) (relocate n J h)
           = relocate n J (setitem_h d fld v h)"
proof (cases "cell_at h d")
  case (Dict kvs)
  with cell_at_relocate_new [OF assms, of J]
  have "cell_at (relocate n J h) (d + length J)
          = Dict (map (\<lambda>(key, v). (key, reloc_val n (length J) v)) kvs)"
    by simp
  then show ?thesis
    by (simp add: setitem_h_def Dict update_reloc relocate_update [OF assms])
next
  case (Lst xs)
  with cell_at_relocate_new [OF assms, of J]
  have "cell_at (relocate n J h) (d + length J) = Lst (map (reloc_addr n (length J)) xs)"
    by simp
  then show ?thesis
    by (simp add: setitem_h_def Lst)
qed

lemma append_h_relocate:
  assumes "n \<le> l" and "n \<le> length h"
  shows "append_h (l + length J) (reloc_addr n (length J) x) (relocate n J h)
           = relocate n J (append_h l x h)"
proof (cases "cell_at h l")
  case (Dict kvs)
  with cell_at_relocate_new [OF assms, of J]
  have "cell_at (relocate n J h) (l + length J)
          = Dict (map (\<lambda>(key, v). (key, reloc_val n (length J) v)) kvs)"
    by simp
  then show ?thesis
    by (simp add: append_h_def Dict)
next
  case (Lst xs)
  with cell_at_relocate_new [OF assms, of J]
  have "cell_at (relocate n J h) (l + length J) = Lst (map (reloc_addr n (length J)) xs)"
    by simp
  then show ?thesis
    by (simp add: append_h_def Lst relocate_update [OF assms])
qed

lemma closed_unchanged:
  assumes "closed_below n h" and "unchanged_below n h h'" and "n \<le> length h"
  shows "closed_below n h'"
  unfolding closed_below_def
proof (intro allI impI)
  fix a k
  assume a: "a < n" and "a < length h'"
  from assms(2) a have "h' ! a = h ! a"
    by (simp add: unchanged_below_def)
  moreover from assms(1,3) a have "reloc_cell n k (h ! a) = h ! a"
    by (simp add: closed_below_def)
  ultimately show "reloc_cell n k (h' ! a) = h' ! a"
    by simp
qed

lemma relocatable_apply:
  assumes "relocatable n f" and "n \<le> ofd" and "ofd < length h" and "f e ofd h = (d, h')"
  shows "f (reloc_val n (length J) e) (ofd + length J) (relocate n J h)
           = (reloc_addr n (length J) d, relocate n J h')"
proof -
  from assms(1) [unfolded relocatable_def, THEN spec, THEN spec, THEN spec, THEN spec,
      THEN mp, OF conjI, OF assms(2,3), of J e]
  show ?thesis
    by (simp add: assms(4) reloc_addr_new [OF assms(2)])
qed

lemma children_h_relocate:
  "transforms_write_only_new X \<Longrightarrow> transforms_relocatable n X \<Longrightarrow>
   n \<le> length h \<Longrightarrow> closed_below n h \<Longrightarrow> nodes_below n nd \<Longrightarrow>
     children_recursion_h X request config nd (relocate n J h)
       = (fst (children_recursion_h X request config nd h) + length J,
          relocate n J (snd (children_recursion_h X request config nd h)))"
  "transforms_write_only_new X \<Longrightarrow> transforms_relocatable n X \<Longrightarrow>
   n \<le> length h \<Longrightarrow> closed_below n h \<Longrightarrow> list_all (nodes_below n) objs \<Longrightarrow>
   n \<le> result \<Longrightarrow>
     children_loop_h X request config objs (result + length J) (relocate n J h)
       = relocate n J (children_loop_h X request config objs result h)"
proof (induction X request config nd h and X request config objs result h
        rule: children_recursion_h_children_loop_h.induct)
  case (1 X request config a c kids h)
  note F = "1.prems"(1) and R = "1.prems"(2) and l = "1.prems"(3) and cl = "1.prems"(4)
  from "1.prems"(5) have kids: "list_all (nodes_below n) kids" by simp
  obtain result h1 where A: "alloc (Lst []) h = (result, h1)"
    by (rule prod.exhaust)
  from alloc_frame [OF A l]
  have u1: "unchanged_below n h h1" and r: "n \<le> result"
    by simp_all
  from u1 l have l1: "n \<le> length h1"
    by (rule unchanged_below_length)
  from cl u1 l have cl1: "closed_below n h1"
    by (rule closed_unchanged)
  from alloc_relocate [OF l, of J "Lst []"]
  have A2: "alloc (Lst []) (relocate n J h) = (result + length J, relocate n J h1)"
    by (simp add: A reloc_addr_new [OF r])
  from "1.IH" [OF A [symmetric] F R l1 cl1 kids r]
  have "children_loop_h X request config kids (result + length J) (relocate n J h1)
          = relocate n J (children_loop_h X request config kids result h1)" .
  then show ?case
    by (simp add: A A2)
next
  case (2 X request config result h)
  then show ?case by simp
next
  case (3 X request config obj objs result h)
  note F = "3.prems"(1) and R = "3.prems"(2) and l = "3.prems"(3) and cl = "3.prems"(4)
    and res = "3.prems"(6)
  let ?k = "length J"
  from "3.prems"(5) have nobj: "nodes_below n obj" and nobjs: "list_all (nodes_below n) objs"
    by simp_all
  from nobj have ao: "haddr obj < n"
    by (cases obj) simp
  obtain ofd h1 where D: "dict_h {''children''} (haddr obj) h = (ofd, h1)"
    by (rule prod.exhaust)
  from dict_h_frame [OF D l]
  have u1: "unchanged_below n h h1" and o1: "n \<le> ofd" and o2: "ofd < length h1"
    by simp_all
  from u1 l have l1: "n \<le> length h1"
    by (rule unchanged_below_length)
  from cl u1 l have cl1: "closed_below n h1"
    by (rule closed_unchanged)
  from dict_h_relocate [OF l cl, of "{''children''}" J "haddr obj"]
  have D2: "dict_h {''children''} (haddr obj) (relocate n J h) = (ofd + ?k, relocate n J h1)"
    by (simp add: D reloc_addr_old [OF ao] reloc_addr_new [OF o1])
  have at: "attr_h (relocate n J h1) (haddr obj) fld = reloc_val n ?k (attr_h h1 (haddr obj) fld)"
    for fld
    using attr_h_reloc [OF cell_at_relocate [OF l1 cl1, of J "haddr obj"]]
    by (simp add: reloc_addr_old [OF ao])
  let ?T1 = "if hcls obj = Exercise \<and> truthy_h (attr_h h1 (haddr obj) ''config'') then
               hexport_exercise X request config
                 (hexercise_config X h1 config (attr_h h1 (haddr obj) ''key'')) ofd h1
             else if hcls obj = Chapter then hexport_chapter X request config ofd h1
             else (ofd, h1)"
  let ?h1' = "relocate n J h1"
  let ?T2 = "if hcls obj = Exercise \<and> truthy_h (attr_h ?h1' (haddr obj) ''config'') then
               hexport_exercise X request config
                 (hexercise_config X ?h1' config (attr_h ?h1' (haddr obj) ''key''))
                 (ofd + ?k) ?h1'
             else if hcls obj = Chapter then hexport_chapter X request config (ofd + ?k) ?h1'
             else (ofd + ?k, ?h1')"
  obtain data' h2 where T: "?T1 = (data', h2)"
    by (rule prod.exhaust)
  have both: "(unchanged_below n h1 h2 \<and> n \<le> data') \<and> ?T2 = (data' + ?k, relocate n J h2)"
  proof (cases "hcls obj = Exercise \<and> truthy_h (attr_h h1 (haddr obj) ''config'')")
    case True
    let ?e = "hexercise_config X h1 config (attr_h h1 (haddr obj) ''key'')"
    from T have E: "hexport_exercise X request config ?e ofd h1 = (data', h2)"
      unfolding if_P [OF True] .
    from F have W: "writes_only_new (hexport_exercise X request config ?e)"
      by (simp add: transforms_write_only_new_def)
    from W E o1 o2 have u: "unchanged_below n h1 h2 \<and> n \<le> data'"
      by (rule writes_only_new_frame)
    from R have RE: "relocatable n (hexport_exercise X request config)"
      by (simp add: transforms_relocatable_def)
    from R l1 have ec: "hexercise_config X ?h1' config (reloc_val n ?k (attr_h h1 (haddr obj) ''key''))
                      = reloc_val n ?k ?e"
      by (simp add: transforms_relocatable_def)
    from True have True': "hcls obj = Exercise \<and> truthy_h (attr_h ?h1' (haddr obj) ''config'')"
      by (simp add: at truthy_h_reloc)
    have "?T2 = hexport_exercise X request config
                  (hexercise_config X ?h1' config (attr_h ?h1' (haddr obj) ''key''))
                  (ofd + ?k) ?h1'"
      by (rule if_P [OF True'])
    also have "\<dots> = hexport_exercise X request config (reloc_val n ?k ?e) (ofd + ?k) ?h1'"
      by (simp only: at ec)
    also have "\<dots> = (reloc_addr n ?k data', relocate n J h2)"
      by (rule relocatable_apply [OF RE o1 o2 E])
    finally have "?T2 = (data' + ?k, relocate n J h2)"
      using u by (simp add: reloc_addr_new)
    with u show ?thesis by simp
  next
    case False
    then have False': "\<not> (hcls obj = Exercise \<and> truthy_h (attr_h ?h1' (haddr obj) ''config''))"
      by (simp add: at truthy_h_reloc)
    show ?thesis
    proof (cases "hcls obj = Chapter")
      case True
      from T have E: "hexport_chapter X request config ofd h1 = (data', h2)"
        unfolding if_not_P [OF False] if_P [OF True] .
      from F have W: "writes_only_new (hexport_chapter X request config)"
        by (simp add: transforms_write_only_new_def)
      from W E o1 o2 have u: "unchanged_below n h1 h2 \<and> n \<le> data'"
        by (rule writes_only_new_frame)
      from R have RC: "relocatable n (\<lambda>e. hexport_chapter X request config)"
        by (simp add: transforms_relocatable_def)
      have "?T2 = hexport_chapter X request config (ofd + ?k) ?h1'"
        by (simp only: if_not_P [OF False'] if_P [OF True])
      also have "\<dots> = (reloc_addr n ?k data', relocate n J h2)"
        using relocatable_apply [OF RC o1 o2 E, where J = J] by simp
      finally have "?T2 = (data' + ?k, relocate n J h2)"
        using u by (simp add: reloc_addr_new)
      with u show ?thesis by simp
    next
      case no: False
      from T have "(ofd, h1) = (data', h2)"
        unfolding if_not_P [OF False] if_not_P [OF no] .
      then have e: "data' = ofd" "h2 = h1" by simp_all
      have "?T2 = (ofd + ?k, ?h1')"
        by (simp only: if_not_P [OF False'] if_not_P [OF no])
      with o1 show ?thesis by (simp add: e unchanged_below_refl)
    qed
  qed
  from both have u2': "unchanged_below n h1 h2" and d1: "n \<le> data'"
    and T2: "?T2 = (data' + ?k, relocate n J h2)"
    by simp_all
  from u2' l1 have l2: "n \<le> length h2" by (rule unchanged_below_length)
  from cl1 u2' l1 have cl2: "closed_below n h2"
    by (rule closed_unchanged)
  obtain sub h3 where Rc: "children_recursion_h X request config obj h2 = (sub, h3)"
    by (rule prod.exhaust)
  from children_h_frame(1) [OF F l2, of request config obj] Rc
  have u3: "unchanged_below n h2 h3" and s1: "n \<le> sub"
    by simp_all
  from u3 l2 have l3: "n \<le> length h3" by (rule unchanged_below_length)
  from "3.IH"(1) [OF D [symmetric] T [symmetric] F R l2 cl2 nobj] Rc
  have Rc2: "children_recursion_h X request config obj (relocate n J h2)
               = (sub + ?k, relocate n J h3)"
    by simp
  let ?h4 = "setitem_h data' ''children'' (Ref sub) h3"
  let ?h5 = "append_h result data' ?h4"
  from d1 have u4: "unchanged_below n h3 ?h4" by (rule setitem_h_frame)
  from res have u5: "unchanged_below n ?h4 ?h5" by (rule append_h_frame)
  from u4 l3 have l4: "n \<le> length ?h4" by (rule unchanged_below_length)
  from u5 l4 have l5: "n \<le> length ?h5" by (rule unchanged_below_length)
  from cl2 u3 l2 have cl3: "closed_below n h3" by (rule closed_unchanged)
  from cl3 u4 l3 have cl4: "closed_below n ?h4" by (rule closed_unchanged)
  from cl4 u5 l4 have cl5: "closed_below n ?h5" by (rule closed_unchanged)
  from setitem_h_relocate [OF d1 l3, of J "''children''" "Ref sub"]
  have S2: "setitem_h (data' + ?k) ''children'' (Ref (sub + ?k)) (relocate n J h3)
              = relocate n J ?h4"
    by (simp add: reloc_addr_new [OF s1])
  from append_h_relocate [OF res l4, of J data']
  have A2: "append_h (result + ?k) (data' + ?k) (relocate n J ?h4) = relocate n J ?h5"
    by (simp add: reloc_addr_new [OF d1])
  from "3.IH"(2) [OF D [symmetric] T [symmetric] Rc [symmetric] F R l5 cl5 nobjs res]
  have IH2: "children_loop_h X request config objs (result + ?k) (relocate n J ?h5)
               = relocate n J (children_loop_h X request config objs result ?h5)" .
  have eq1: "children_loop_h X request config (obj # objs) result h
               = children_loop_h X request config objs result ?h5"
    by (subst children_loop_h.simps) (simp only: D T Rc prod.case)
  have eq2: "children_loop_h X request config (obj # objs) (result + ?k) (relocate n J h)
               = children_loop_h X request config objs (result + ?k) (relocate n J ?h5)"
    by (subst children_loop_h.simps) (simp only: D2 T2 Rc2 S2 A2 prod.case)
  show ?case
    unfolding eq1 eq2 by (rule IH2)
qed

lemma json_of_relocate:
  assumes "n \<le> length h" and "closed_below n h"
  shows "json_of depth (relocate n J h) (reloc_val n (length J) v) = json_of depth h v"
proof (induction depth arbitrary: v)
  case 0
  show ?case by simp
next
  case (Suc depth)
  show ?case
  proof (cases v)
    case (Val x)
    then show ?thesis by simp
  next
    case (Ref a)
    have c: "cell_at (relocate n J h) (reloc_addr n (length J) a)
               = reloc_cell n (length J) (cell_at h a)"
      by (rule cell_at_relocate [OF assms])
    show ?thesis
    proof (cases "cell_at h a")
      case (Dict kvs)
      have "map (\<lambda>(fld, v). (fld, json_of depth (relocate n J h) v))
              (map (\<lambda>(key, v). (key, reloc_val n (length J) v)) kvs)
            = map (\<lambda>(fld, v). (fld, json_of depth h v)) kvs"
        by (induction kvs) (auto simp: Suc.IH)
      then show ?thesis
        by (simp add: Ref c Dict)
    next
      case (Lst xs)
      have "map (\<lambda>x. json_of depth (relocate n J h) (Ref x)) (map (reloc_addr n (length J)) xs)
            = map (\<lambda>x. json_of depth h (Ref x)) xs"
      proof (induction xs)
        case Nil
        show ?case by simp
      next
        case (Cons x xs)
        from Suc.IH [of "Ref x"] Cons show ?case by simp
      qed
      then show ?thesis
        by (simp add: Ref c Lst)
    qed
  qed
qed

lemma modules_loop_h_relocate:
  "transforms_write_only_new X \<Longrightarrow> transforms_relocatable n X \<Longrightarrow>
   n \<le> length h \<Longrightarrow> closed_below n h \<Longrightarrow> list_all (nodes_below n) ms \<Longrightarrow> n \<le> mods \<Longrightarrow>
     modules_loop_h X request config ms (mods + length J) (relocate n J h)
       = relocate n J (modules_loop_h X request config ms mods h)"
proof (induction ms arbitrary: h)
  case Nil
  show ?case by simp
next
  case (Cons m ms)
  note F = Cons.prems(1) and R = Cons.prems(2) and l = Cons.prems(3) and cl = Cons.prems(4)
    and res = Cons.prems(6)
  let ?k = "length J"
  from Cons.prems(5) have nm: "nodes_below n m" and nms: "list_all (nodes_below n) ms"
    by simp_all
  from nm have am: "haddr m < n"
    by (cases m) simp
  obtain mf h1 where D: "dict_h {''children''} (haddr m) h = (mf, h1)"
    by (rule prod.exhaust)
  from dict_h_frame [OF D l]
  have u1: "unchanged_below n h h1" and m1: "n \<le> mf"
    by simp_all
  from u1 l have l1: "n \<le> length h1" by (rule unchanged_below_length)
  from cl u1 l have cl1: "closed_below n h1" by (rule closed_unchanged)
  from dict_h_relocate [OF l cl, of "{''children''}" J "haddr m"]
  have D2: "dict_h {''children''} (haddr m) (relocate n J h) = (mf + ?k, relocate n J h1)"
    by (simp add: D reloc_addr_old [OF am] reloc_addr_new [OF m1])
  obtain sub h2 where Rc: "children_recursion_h X request config m h1 = (sub, h2)"
    by (rule prod.exhaust)
  from children_h_frame(1) [OF F l1, of request config m] Rc
  have u2: "unchanged_below n h1 h2" and s1: "n \<le> sub"
    by simp_all
  from u2 l1 have l2: "n \<le> length h2" by (rule unchanged_below_length)
  from cl1 u2 l1 have cl2: "closed_below n h2" by (rule closed_unchanged)
  from children_h_relocate(1) [OF F R l1 cl1 nm, of request config J] Rc
  have Rc2: "children_recursion_h X request config m (relocate n J h1)
               = (sub + ?k, relocate n J h2)"
    by simp
  let ?h3 = "setitem_h mf ''children'' (Ref sub) h2"
  let ?h4 = "append_h mods mf ?h3"
  from m1 have u3: "unchanged_below n h2 ?h3" by (rule setitem_h_frame)
  from res have u4: "unchanged_below n ?h3 ?h4" by (rule append_h_frame)
  from u3 l2 have l3: "n \<le> length ?h3" by (rule unchanged_below_length)
  from u4 l3 have l4: "n \<le> length ?h4" by (rule unchanged_below_length)
  from cl2 u3 l2 have cl3: "closed_below n ?h3" by (rule closed_unchanged)
  from cl3 u4 l3 have cl4: "closed_below n ?h4" by (rule closed_unchanged)
  from setitem_h_relocate [OF m1 l2, of J "''children''" "Ref sub"]
  have S2: "setitem_h (mf + ?k) ''children'' (Ref (sub + ?k)) (relocate n J h2)
              = relocate n J ?h3"
    by (simp add: reloc_addr_new [OF s1])
  from append_h_relocate [OF res l3, of J mf]
  have A2: "append_h (mods + ?k) (mf + ?k) (relocate n J ?h3) = relocate n J ?h4"
    by (simp add: reloc_addr_new [OF m1])
  from Cons.IH [OF F R l4 cl4 nms res]
  have IH: "modules_loop_h X request config ms (mods + ?k) (relocate n J ?h4)
              = relocate n J (modules_loop_h X request config ms mods ?h4)" .
  have eq1: "modules_loop_h X request config (m # ms) mods h
               = modules_loop_h X request config ms mods ?h4"
    by (subst modules_loop_h.simps) (simp only: D Rc prod.case)
  have eq2: "modules_loop_h X request config (m # ms) (mods + ?k) (relocate n J h)
               = modules_loop_h X request config ms (mods + ?k) (relocate n J ?h4)"
    by (subst modules_loop_h.simps) (simp only: D2 Rc2 S2 A2 prod.case)
  show ?case
    unfolding eq1 eq2 by (rule IH)
qed

lemma aplus_json_h_relocate:
  assumes F: "transforms_write_only_new X" and R: "transforms_relocatable n X"
    and l: "n \<le> length h" and cl: "closed_below n h"
    and wf: "\<forall>config. get course_key = Some config \<longrightarrow>
               data_addr config < n \<and> list_all (nodes_below n) (hmodules config)"
  shows "aplus_json_h X get request course_key (relocate n J h)
           = (map_sum id (\<lambda>a. a + length J) (fst (aplus_json_h X get request course_key h)),
              relocate n J (snd (aplus_json_h X get request course_key h)))"
proof (cases "get course_key")
  case None
  then show ?thesis by (simp add: aplus_json_h_def)
next
  case (Some config)
  let ?k = "length J"
  from wf Some have ad: "data_addr config < n"
    and nms: "list_all (nodes_below n) (hmodules config)"
    by simp_all
  obtain data' h1 where D: "dict_h {''modules'', ''static_dir''} (data_addr config) h = (data', h1)"
    by (rule prod.exhaust)
  from dict_h_frame [OF D l]
  have u1: "unchanged_below n h h1" and d1: "n \<le> data'"
    by simp_all
  from u1 l have l1: "n \<le> length h1" by (rule unchanged_below_length)
  from cl u1 l have cl1: "closed_below n h1" by (rule closed_unchanged)
  from dict_h_relocate [OF l cl, of "{''modules'', ''static_dir''}" J "data_addr config"]
  have D2: "dict_h {''modules'', ''static_dir''} (data_addr config) (relocate n J h)
              = (data' + ?k, relocate n J h1)"
    by (simp add: D reloc_addr_old [OF ad] reloc_addr_new [OF d1])
  obtain mods h2 where A: "alloc (Lst []) h1 = (mods, h2)"
    by (rule prod.exhaust)
  from alloc_frame [OF A l1]
  have u2: "unchanged_below n h1 h2" and m2: "n \<le> mods"
    by simp_all
  from u2 l1 have l2: "n \<le> length h2" by (rule unchanged_below_length)
  from cl1 u2 l1 have cl2: "closed_below n h2" by (rule closed_unchanged)
  from alloc_relocate [OF l1, of J "Lst []"]
  have A2: "alloc (Lst []) (relocate n J h1) = (mods + ?k, relocate n J h2)"
    by (simp add: A reloc_addr_new [OF m2])
  let ?h3 = "modules_loop_h X request config (hmodules config) mods h2"
  let ?h4 = "setitem_h data' ''modules'' (Ref mods) ?h3"
  let ?u = "Val (PStr (hbuild_log_url X request course_key))"
  let ?h5 = "setitem_h data' ''build_log_url'' ?u ?h4"
  from modules_loop_h_frame [OF F l2 m2]
  have u3: "unchanged_below n h2 ?h3" .
  from u3 l2 have l3: "n \<le> length ?h3" by (rule unchanged_below_length)
  from d1 have u4: "unchanged_below n ?h3 ?h4" by (rule setitem_h_frame)
  from u4 l3 have l4: "n \<le> length ?h4" by (rule unchanged_below_length)
  from modules_loop_h_relocate [OF F R l2 cl2 nms m2]
  have M2: "modules_loop_h X request config (hmodules config) (mods + ?k) (relocate n J h2)
              = relocate n J ?h3" .
  from setitem_h_relocate [OF d1 l3, of J "''modules''" "Ref mods"]
  have S2: "setitem_h (data' + ?k) ''modules'' (Ref (mods + ?k)) (relocate n J ?h3)
              = relocate n J ?h4"
    by (simp add: reloc_addr_new [OF m2])
  from setitem_h_relocate [OF d1 l4, of J "''build_log_url''" ?u]
  have S3: "setitem_h (data' + ?k) ''build_log_url'' ?u (relocate n J ?h4) = relocate n J ?h5"
    by simp
  have r1: "aplus_json_h X get request course_key h = (Inr data', ?h5)"
    by (simp add: aplus_json_h_def Some D A Let_def)
  have r2: "aplus_json_h X get request course_key (relocate n J h)
              = (Inr (data' + ?k), relocate n J ?h5)"
    unfolding aplus_json_h_def Let_def
    by (simp only: Some option.case D2 A2 M2 S2 S3 prod.case)
  show ?thesis
    unfolding r1 r2 by simp
qed

lemma aplus_json_h_result:
  "get course_key = Some config \<Longrightarrow>
   fst (aplus_json_h X get request course_key h) = Inr (length h)"
  by (simp add: aplus_json_h_def dict_h_def alloc_def Let_def)

text \<open>
  Claim C8. Two exports of the same course for the same request, the second started on
  the heap that the first has left, send the same JSON document: read to any depth, the
  object that the second export returns stands for the same value as the object that the
  first returned, the \<open>modules\<close> and \<open>children\<close> lists element for element and in the same
  order. The export itself brings nothing into the document that depends on what the heap
  holds besides the configuration. This is shown for collaborators that write only to
  new objects and behave the same way wherever the objects of the request lie, for a
  configuration that does not refer to objects of a request, and for nodes that are
  objects of the heap.
\<close>

theorem second_export_same_document:
  assumes "transforms_write_only_new X"
    and "transforms_relocatable (length h) X"
    and "closed_below (length h) h"
    and "\<forall>config. get course_key = Some config \<longrightarrow>
           data_addr config < length h
           \<and> list_all (nodes_below (length h)) (hmodules config)"
  shows "document depth
           (aplus_json_h X get request course_key
              (snd (aplus_json_h X get request course_key h)))
         = document depth (aplus_json_h X get request course_key h)"
proof -
  let ?n = "length h"
  let ?run = "aplus_json_h X get request course_key"
  let ?h1 = "snd (?run h)"
  let ?J = "drop ?n ?h1"
  from aplus_json_h_frame [OF assms(1)]
  have u: "unchanged_below ?n h ?h1" .
  then have t: "take ?n ?h1 = h" by (rule unchanged_below_take)
  from u have l1: "?n \<le> length ?h1" by (simp add: unchanged_below_def)
  from assms(3) u le_refl have cl1: "closed_below ?n ?h1" by (rule closed_unchanged)
  have "relocate ?n ?J h = h @ ?J"
    by (simp add: relocate_def)
  also have "\<dots> = take ?n ?h1 @ drop ?n ?h1"
    by (simp only: t)
  finally have rel: "relocate ?n ?J h = ?h1"
    by simp
  from aplus_json_h_relocate [where get = get and course_key = course_key and n = "length h"
      and h = h and J = ?J and request = request, OF assms(1,2) le_refl assms(3,4)]
  have two: "?run ?h1
               = (map_sum id (\<lambda>a. a + length ?J) (fst (?run h)), relocate ?n ?J ?h1)"
    by (simp only: rel)
  show ?thesis
  proof (cases "get course_key")
    case None
    then show ?thesis by (simp add: aplus_json_h_def)
  next
    case (Some config)
    then have f: "fst (?run h) = Inr ?n"
      by (rule aplus_json_h_result)
    then have one: "?run h = (Inr ?n, ?h1)"
      by (simp add: prod_eq_iff)
    have "json_of depth (relocate ?n ?J ?h1) (reloc_val ?n (length ?J) (Ref ?n))
            = json_of depth ?h1 (Ref ?n)"
      by (rule json_of_relocate [OF l1 cl1])
    then have "json_of depth (relocate ?n ?J ?h1) (Ref (?n + length ?J))
                 = json_of depth ?h1 (Ref ?n)"
      by (simp add: reloc_addr_def)
    then have "document depth (?run ?h1) = Inr (json_of depth ?h1 (Ref ?n))"
      unfolding two f by simp
    moreover have "document depth (?run h) = Inr (json_of depth ?h1 (Ref ?n))"
      by (subst one) simp
    ultimately show ?thesis by simp
  qed
qed

lemma closed_belowI:
  assumes "\<forall>c\<in>set h. \<forall>k. reloc_cell n k c = c"
  shows "closed_below n h"
  unfolding closed_below_def using assms by simp

lemma demo_hexternals_relocatable: "transforms_relocatable n demo_hexternals"
proof -
  have ex: "relocatable n (hexport_exercise demo_hexternals request config)" for request config
    unfolding relocatable_def
  proof (intro allI impI, elim conjE)
    fix J :: "cell list" and e :: hval and ofd :: addr and h :: heap
    assume o: "n \<le> ofd" and "ofd < length h"
    then have l: "n \<le> length h" by simp
    from setitem_h_relocate [OF o l, of J "''exercise''" e]
    show "hexport_exercise demo_hexternals request config (reloc_val n (length J) e)
            (reloc_addr n (length J) ofd) (relocate n J h)
          = (case hexport_exercise demo_hexternals request config e ofd h of
               (d, h') \<Rightarrow> (reloc_addr n (length J) d, relocate n J h'))"
      by (simp add: demo_hexternals_def reloc_addr_new [OF o])
  qed
  have ch: "relocatable n (\<lambda>e. hexport_chapter demo_hexternals request config)" for request config
    unfolding relocatable_def
  proof (intro allI impI, elim conjE)
    fix J :: "cell list" and e :: hval and ofd :: addr and h :: heap
    assume o: "n \<le> ofd" and "ofd < length h"
    then have l: "n \<le> length h" by simp
    let ?u = "Val (PStr (host request @ ''/static''))"
    have i: "items_at (relocate n J h) (ofd + length J)
               = map (\<lambda>(key, v). (key, reloc_val n (length J) v)) (items_at h ofd)"
      by (rule items_at_reloc [OF cell_at_relocate_new [OF o l]])
    have up: "AList.update ''static_content'' ?u
                (map (\<lambda>(key, v). (key, reloc_val n (length J) v)) (items_at h ofd))
              = map (\<lambda>(key, v). (key, reloc_val n (length J) v))
                  (AList.update ''static_content'' ?u (items_at h ofd))"
      using update_reloc [of "''static_content''" n "length J" ?u "items_at h ofd"] by simp
    from alloc_relocate [OF l, of J "Dict (AList.update ''static_content'' ?u (items_at h ofd))"]
    show "hexport_chapter demo_hexternals request config
            (reloc_addr n (length J) ofd) (relocate n J h)
          = (case hexport_chapter demo_hexternals request config ofd h of
               (d, h') \<Rightarrow> (reloc_addr n (length J) d, relocate n J h'))"
      by (simp add: demo_hexternals_def reloc_addr_new [OF o] i up alloc_def)
  qed
  have cf: "hexercise_config demo_hexternals (relocate n J h) config (reloc_val n (length J) fld)
              = reloc_val n (length J) (hexercise_config demo_hexternals h config fld)"
    for J h config fld
    by (simp add: demo_hexternals_def)
  from ex ch cf show ?thesis
    unfolding transforms_relocatable_def by blast
qed

lemma demo_heap_closed: "closed_below (length demo_heap) demo_heap"
  by (rule closed_belowI) (simp add: demo_heap_def)

text \<open>
  Claim C8 on the small course: its collaborators and its heap meet the conditions, and
  the second export of \<open>demo\<close> sends the document of the first.
\<close>

theorem second_export_same_document_witness:
  "\<forall>depth.
     document depth
       (aplus_json_h demo_hexternals demo_get (demo_request None) ''demo''
          (snd (aplus_json_h demo_hexternals demo_get (demo_request None) ''demo'' demo_heap)))
     = document depth
         (aplus_json_h demo_hexternals demo_get (demo_request None) ''demo'' demo_heap)"
proof
  fix depth
  have wf: "\<forall>config. demo_get ''demo'' = Some config \<longrightarrow>
              data_addr config < length demo_heap
              \<and> list_all (nodes_below (length demo_heap)) (hmodules config)"
    by (simp add: demo_get_def demo_hconfig_def demo_heap_def)
  show "document depth
       (aplus_json_h demo_hexternals demo_get (demo_request None) ''demo''
          (snd (aplus_json_h demo_hexternals demo_get (demo_request None) ''demo'' demo_heap)))
     = document depth
         (aplus_json_h demo_hexternals demo_get (demo_request None) ''demo'' demo_heap)"
    by (rule second_export_same_document
          [where get = demo_get and course_key = "''demo''" and h = demo_heap,
           OF demo_hexternals_contract demo_hexternals_relocatable demo_heap_closed wf])
qed

text \<open>
  The condition on the collaborators is needed: with the transform that writes the number
  of objects into the dictionary, the second export gives another document than the first.
\<close>

lemma counter_first:
  "children_recursion_h counter_hexternals (demo_request None) demo_hconfig
     (HNode 0 Module [HNode 1 Chapter []]) alias_heap = (2, counter_heap1)"
  by (simp add: counter_hexternals_def demo_hexternals_def alias_heap_def counter_heap1_def
        alloc_def dict_h_def setitem_h_def append_h_def cell_at_def items_at_def)

lemma counter_second:
  "children_recursion_h counter_hexternals (demo_request None) demo_hconfig
     (HNode 0 Module [HNode 1 Chapter []]) counter_heap1 = (5, counter_heap2)"
  by (simp add: counter_hexternals_def demo_hexternals_def alias_heap_def counter_heap1_def
        counter_heap2_def alloc_def dict_h_def setitem_h_def append_h_def cell_at_def
        items_at_def)

lemma counter_changes_document:
  "json_of 3 counter_heap1 (Ref 2)
     = PList [PDict [(''key'', PStr ''ch1''), (''serial'', PInt 4), (''children'', PList [])]]
   \<and> json_of 3 counter_heap2 (Ref 5)
     = PList [PDict [(''key'', PStr ''ch1''), (''serial'', PInt 7), (''children'', PList [])]]"
  by (simp add: numeral_3_eq_3 alias_heap_def counter_heap1_def counter_heap2_def cell_at_def)

end
